theory Spec2Isabelle
  imports Main "HOL-Library.Sublist"
begin

section \<open>Values shared by the whole pipeline\<close>

text \<open>
  Decoded JSON documents and the \<open>Dict[str, Any]\<close> payloads of the schemas. A Python dict
  keeps insertion order, so an object is an association list. Non-integer numbers are not
  represented: no property below reads a numeric payload.
\<close>

datatype json =
    JNull
  | JBool bool
  | JInt int
  | JStr string
  | JList "json list"
  | JObj "(string \<times> json) list"

type_synonym py_dict = "(string \<times> json) list"

text \<open>
  Exceptions are values. Each constructor carries the argument the exception was raised
  with (\<open>JSONDecodeError\<close>, a subclass of \<open>ValueError\<close>, the text \<open>str(e)\<close> gives for
  it); \<open>Raised\<close> stands for any exception coming out of library or network code, carrying
  the text \<open>str(e)\<close> gives for it.
\<close>

datatype exn =
    KeyError string
  | ValueError string
  | JSONDecodeError string
  | IndexError string
  | RuntimeError string
  | ValidationError "string list"
  | Raised string

definition newline :: string where
  "newline = [CHR 0x0A]"

definition apostrophe :: string where
  "apostrophe = [CHR 0x27]"

fun join_lines :: "string list \<Rightarrow> string" where
  "join_lines [] = []"
| "join_lines [l] = l"
| "join_lines (l # ls) = l @ newline @ join_lines ls"

text \<open>\<open>str(e)\<close>: a \<open>KeyError\<close> prints the repr of its argument, the others the argument.\<close>

fun str_exn :: "exn \<Rightarrow> string" where
  "str_exn (KeyError m) = apostrophe @ m @ apostrophe"
| "str_exn (ValueError m) = m"
| "str_exn (JSONDecodeError m) = m"
| "str_exn (IndexError m) = m"
| "str_exn (RuntimeError m) = m"
| "str_exn (ValidationError errs) = join_lines errs"
| "str_exn (Raised m) = m"

text \<open>\<open>str.strip()\<close> on the ASCII range: tab, line feed, vertical tab, form feed, carriage
  return, the four separators 0x1C..0x1F and space are whitespace.\<close>

definition isspace :: "char \<Rightarrow> bool" where
  "isspace c = (c \<in> set [CHR 0x09, CHR 0x0A, CHR 0x0B, CHR 0x0C, CHR 0x0D,
                           CHR 0x1C, CHR 0x1D, CHR 0x1E, CHR 0x1F, CHR 0x20])"

definition strip :: "string \<Rightarrow> string" where
  "strip s = rev (dropWhile isspace (rev (dropWhile isspace s)))"

section \<open>Schemas (agents/schemas.py)\<close>

text \<open>\<open>ToolName = Literal["weather_current", "github_repo_search", "news_search"]\<close>\<close>

definition ToolName :: "string list" where
  "ToolName = [''weather_current'', ''github_repo_search'', ''news_search'']"

definition is_ToolName :: "string \<Rightarrow> bool" where
  "is_ToolName n = (n \<in> set ToolName)"

record ToolResult =
  ok :: bool
  tool_name :: string
  data :: py_dict
  error :: "string option"
  meta :: py_dict

record VerifierStep =
  id :: int
  action :: string
  tool_name :: string
  tool_args :: py_dict
  output_key :: string
  depends_on :: "int list"

record PlanStep =
  id :: int
  action :: string
  tool_name :: "string option"
  tool_args :: py_dict
  output_key :: string
  depends_on :: "int list"

record AgentPlan =
  objective :: string
  assumptions :: "string list"
  steps :: "PlanStep list"

text \<open>
  The fields handed to a step model's constructor, after pydantic's coercion to the declared
  field types: \<open>raw_tool_name = None\<close> is a \<open>null\<close> (or, for \<open>PlanStep\<close>, absent) tool
  name. Validation below applies the constraints and validators the schemas declare;
  pydantic collects every violation and raises one \<open>ValidationError\<close> listing them.
\<close>

record raw_step =
  raw_id :: int
  raw_action :: string
  raw_tool_name :: "string option"
  raw_tool_args :: py_dict
  raw_output_key :: string
  raw_depends_on :: "int list"

record raw_plan =
  raw_objective :: string
  raw_assumptions :: "string list"
  raw_steps :: "raw_step list"

record raw_verification =
  raw_status :: string
  raw_issues :: "string list"
  raw_fix_steps :: "raw_step list"
  raw_final_output :: py_dict

text \<open>
  \<open>PlanStep.depends_on_no_self\<close>. \<open>step_id\<close> is \<open>info.data.get("id")\<close>: the identifier when it
  passed its own constraint, \<open>None\<close> otherwise; the test \<open>if step_id and ...\<close> is false for
  \<open>None\<close> and for \<open>0\<close>.
\<close>

definition depends_on_no_self :: "int list \<Rightarrow> int option \<Rightarrow> string + int list" where
  "depends_on_no_self v step_id =
     (case step_id of
        None \<Rightarrow> Inr v
      | Some i \<Rightarrow>
          if i \<noteq> 0 \<and> i \<in> set v then Inl ''depends_on cannot include step id itself''
          else Inr v)"

definition PlanStep_errors :: "raw_step \<Rightarrow> string list" where
  "PlanStep_errors r =
     (if 1 \<le> raw_id r then [] else [''id: Input should be greater than or equal to 1'']) @
     (if 1 \<le> length (raw_action r) then []
      else [''action: String should have at least 1 character'']) @
     (case raw_tool_name r of
        None \<Rightarrow> []
      | Some n \<Rightarrow> if is_ToolName n then [] else [''tool_name: Input should be a ToolName'']) @
     (if 1 \<le> length (raw_output_key r) then []
      else [''output_key: String should have at least 1 character'']) @
     (case depends_on_no_self (raw_depends_on r)
             (if 1 \<le> raw_id r then Some (raw_id r) else None) of
        Inl m \<Rightarrow> [''depends_on: Value error, '' @ m]
      | Inr v \<Rightarrow> [])"

definition PlanStep_validate :: "raw_step \<Rightarrow> exn + PlanStep" where
  "PlanStep_validate r =
     (if PlanStep_errors r = [] then
        Inr \<lparr>PlanStep.id = raw_id r, action = raw_action r, tool_name = raw_tool_name r,
             tool_args = raw_tool_args r, output_key = raw_output_key r,
             depends_on = raw_depends_on r\<rparr>
      else Inl (ValidationError (PlanStep_errors r)))"

text \<open>\<open>VerifierStep\<close>: \<open>id >= 1000\<close>, and \<open>tool_name: ToolName\<close> is not optional.\<close>

definition VerifierStep_errors :: "raw_step \<Rightarrow> string list" where
  "VerifierStep_errors r =
     (if 1000 \<le> raw_id r then []
      else [''id: Input should be greater than or equal to 1000'']) @
     (case raw_tool_name r of
        None \<Rightarrow> [''tool_name: Input should be a ToolName'']
      | Some n \<Rightarrow> if is_ToolName n then [] else [''tool_name: Input should be a ToolName''])"

definition VerifierStep_validate :: "raw_step \<Rightarrow> exn + VerifierStep" where
  "VerifierStep_validate r =
     (if VerifierStep_errors r = [] then
        (case raw_tool_name r of
           Some n \<Rightarrow>
             Inr \<lparr>VerifierStep.id = raw_id r, action = raw_action r, tool_name = n,
                  tool_args = raw_tool_args r, output_key = raw_output_key r,
                  depends_on = raw_depends_on r\<rparr>
         | None \<Rightarrow> Inl (ValidationError (VerifierStep_errors r)))
      else Inl (ValidationError (VerifierStep_errors r)))"

text \<open>Validating the items of a list field: every failing item contributes its errors.\<close>

fun validate_items :: "('a \<Rightarrow> exn + 'b) \<Rightarrow> 'a list \<Rightarrow> string list \<times> 'b list" where
  "validate_items f [] = ([], [])"
| "validate_items f (x # xs) =
     (case validate_items f xs of
        (errs, ys) \<Rightarrow>
          (case f x of
             Inl e \<Rightarrow> (str_exn e # errs, ys)
           | Inr y \<Rightarrow> (errs, y # ys)))"

text \<open>
  \<open>AgentPlan.unique_ids\<close>, the validator of the field \<open>steps\<close>. It runs after the field's own
  validation (every item a valid \<open>PlanStep\<close>, \<open>min_length=1\<close>). \<open>steps[-1]\<close> on an empty list
  would raise \<open>IndexError\<close>.
\<close>

definition unique_ids :: "PlanStep list \<Rightarrow> exn + PlanStep list" where
  "unique_ids ss =
     (let ids = map PlanStep.id ss in
      if length ids \<noteq> card (set ids) then Inl (ValueError ''Step ids must be unique'')
      else
        (case ss of
           [] \<Rightarrow> Inl (IndexError ''list index out of range'')
         | _ # _ \<Rightarrow>
             if PlanStep.output_key (last ss) \<noteq> ''final'' \<or> PlanStep.tool_name (last ss) \<noteq> None
             then Inl (ValueError
               ''Last step must be compose_final (tool_name=null, output_key='final')'')
             else Inr ss))"

definition AgentPlan_steps_errors :: "raw_step list \<Rightarrow> string list" where
  "AgentPlan_steps_errors rs =
     (case validate_items PlanStep_validate rs of
        (errs, ss) \<Rightarrow>
          if errs \<noteq> [] then errs
          else if length ss < 1 then [''steps: List should have at least 1 item'']
          else
            (case unique_ids ss of
               Inl e \<Rightarrow> [''steps: Value error, '' @ str_exn e]
             | Inr v \<Rightarrow> []))"

definition AgentPlan_errors :: "raw_plan \<Rightarrow> string list" where
  "AgentPlan_errors r =
     (if 1 \<le> length (raw_objective r) then []
      else [''objective: String should have at least 1 character'']) @
     AgentPlan_steps_errors (raw_steps r)"

definition AgentPlan_validate :: "raw_plan \<Rightarrow> exn + AgentPlan" where
  "AgentPlan_validate r =
     (if AgentPlan_errors r = [] then
        Inr \<lparr>objective = raw_objective r, assumptions = raw_assumptions r,
             steps = snd (validate_items PlanStep_validate (raw_steps r))\<rparr>
      else Inl (ValidationError (AgentPlan_errors r)))"

record VerificationResult =
  status :: string
  issues :: "string list"
  fix_steps :: "VerifierStep list"
  final_output :: py_dict

definition VerificationResult_errors :: "raw_verification \<Rightarrow> string list" where
  "VerificationResult_errors r =
     (if raw_status r \<in> set [''complete'', ''needs_fix''] then []
      else [''status: Input should be complete or needs_fix'']) @
     fst (validate_items VerifierStep_validate (raw_fix_steps r))"

definition VerificationResult_validate :: "raw_verification \<Rightarrow> exn + VerificationResult" where
  "VerificationResult_validate r =
     (if VerificationResult_errors r = [] then
        Inr \<lparr>status = raw_status r, issues = raw_issues r,
             fix_steps = snd (validate_items VerifierStep_validate (raw_fix_steps r)),
             final_output = raw_final_output r\<rparr>
      else Inl (ValidationError (VerificationResult_errors r)))"

text \<open>
  A stored result is either the record \<open>{"text": ...}\<close> of a compose step or the
  \<open>model_dump()\<close> of a \<open>ToolResult\<close>.
\<close>

datatype result_value = Composed string | Dumped ToolResult

text \<open>\<open>RunResponse\<close> (main.py): what \<open>run_task\<close> returns.\<close>

record RunResponse =
  task :: string
  plan :: AgentPlan
  results :: "string \<rightharpoonup> result_value"
  verification :: VerificationResult
  final_output :: py_dict
  logs :: "string list"

record ExecutionState =
  task :: string
  plan :: AgentPlan
  results :: "string \<rightharpoonup> result_value"
  step_status :: "int \<rightharpoonup> string"
  logs :: "string list"

section \<open>The environment\<close>

text \<open>
  Everything outside the orchestration engine is a parameter: the three tool capabilities
  behind the \<open>BaseTool.call\<close> interface, \<open>GroqClient.chat\<close>, the library functions
  (\<open>json.loads\<close>, \<open>json.dumps\<close>, \<open>str\<close>, \<open>repr\<close>, pydantic's coercion of a decoded document to
  the declared field types), the prompt texts of llm/prompts.py and the process environment.
  A call into the outside takes the world \<open>'w\<close> and returns the new one, so that two calls
  with equal arguments may answer differently. A tool call answers \<open>Inr\<close> a \<open>ToolResult\<close>, or
  \<open>Inl m\<close> when it raises an exception \<open>e\<close> with \<open>str(e) = m\<close>. \<open>chat\<close> takes the messages
  (role, content), \<open>max_tokens\<close> and \<open>json_mode\<close> and answers the reply's content or the
  exception it raises; its temperature, a float literal at each call site, is not
  represented. \<open>json_loads\<close> answers the decoded document, or \<open>Inl m\<close> for a
  \<open>JSONDecodeError\<close> with message \<open>m\<close>.
\<close>

type_synonym message = "string \<times> string"

type_synonym 'w tool = "py_dict \<Rightarrow> 'w \<Rightarrow> (string + ToolResult) \<times> 'w"

type_synonym 'w chat = "message list \<Rightarrow> nat \<Rightarrow> bool \<Rightarrow> 'w \<Rightarrow> (exn + string) \<times> 'w"

record 'w env =
  GitHubTool_call :: "'w tool"
  WeatherTool_call :: "'w tool"
  NewsTool_call :: "'w tool"
  GroqClient_chat :: "'w chat"
  GROQ_API_KEY :: "string option"
  json_loads :: "string \<Rightarrow> string + json"
  coerce_plan :: "json \<Rightarrow> string list + raw_plan"
  coerce_verification :: "json \<Rightarrow> string list + raw_verification"
  PLANNER_SYSTEM :: string
  planner_user_prompt :: "string \<Rightarrow> string"
  VERIFIER_SYSTEM :: string
  verifier_user_prompt :: "string \<Rightarrow> AgentPlan \<Rightarrow> (string \<rightharpoonup> result_value) \<Rightarrow> string"
  str_int :: "int \<Rightarrow> string"
  repr_int_list :: "int list \<Rightarrow> string"
  repr_dict :: "py_dict \<Rightarrow> string"
  dumps_results :: "(string \<rightharpoonup> result_value) \<Rightarrow> string"

section \<open>Tool registry (tools/registry.py)\<close>

definition TOOL_REGISTRY :: "'w env \<Rightarrow> (string \<rightharpoonup> 'w tool)" where
  "TOOL_REGISTRY env =
     [''github_repo_search'' \<mapsto> GitHubTool_call env,
      ''weather_current'' \<mapsto> WeatherTool_call env,
      ''news_search'' \<mapsto> NewsTool_call env]"

definition get_tool :: "'w env \<Rightarrow> string \<Rightarrow> exn + 'w tool" where
  "get_tool env name =
     (case TOOL_REGISTRY env name of
        None \<Rightarrow> Inl (KeyError (''Unknown tool: '' @ name))
      | Some t \<Rightarrow> Inr t)"

section \<open>Executor (agents/executor.py)\<close>

text \<open>\<open>_deps_ok\<close>: the loop returns \<open>False\<close> at the first dependency whose status is not "ok".\<close>

fun deps_ok_loop :: "int list \<Rightarrow> ExecutionState \<Rightarrow> bool" where
  "deps_ok_loop [] state = True"
| "deps_ok_loop (dep # deps) state =
     (if step_status state dep \<noteq> Some ''ok'' then False else deps_ok_loop deps state)"

definition deps_ok :: "PlanStep \<Rightarrow> ExecutionState \<Rightarrow> bool" where
  "deps_ok step state = deps_ok_loop (PlanStep.depends_on step) state"

definition composer_system :: string where
  "composer_system =
     ''You are the Executor's composer. You MUST NOT call tools. '' @
     ''Use ONLY the provided tool results to complete the step. '' @
     ''If asked for bullet points, output bullet points. Output only the text.''"

text \<open>\<open>_compose_text\<close>; \<open>llm\<close> is the agent's optional model client.\<close>

definition compose_text ::
  "'w env \<Rightarrow> 'w chat option \<Rightarrow> ExecutionState \<Rightarrow> PlanStep \<Rightarrow> 'w \<Rightarrow> (exn + string) \<times> 'w" where
  "compose_text env llm state step w =
     (case llm of
        None \<Rightarrow> (Inr (PlanStep.action step), w)
      | Some chat \<Rightarrow>
          (case chat
                  [(''system'', composer_system),
                   (''user'',
                      ''Task: '' @ task state @ newline @
                      ''Step action: '' @ PlanStep.action step @ newline @ newline @
                      ''Available results JSON:'' @ newline @ dumps_results env (results state))]
                  500 False w of
             (Inl e, w') \<Rightarrow> (Inl e, w')
           | (Inr content, w') \<Rightarrow> (Inr (strip content), w')))"

text \<open>
  Constructing a \<open>ToolResult\<close> validates \<open>tool_name: ToolName\<close>; the Executor builds one from
  a caught exception with \<open>ok=False\<close>, the step's tool name and \<open>error=str(e)\<close>.
\<close>

definition ToolResult_validate :: "ToolResult \<Rightarrow> exn + ToolResult" where
  "ToolResult_validate r =
     (if is_ToolName (ToolResult.tool_name r) then Inr r
      else Inl (ValidationError [''tool_name: Input should be a ToolName'']))"

definition failed_result :: "string \<Rightarrow> string \<Rightarrow> ToolResult" where
  "failed_result name msg =
     \<lparr>ok = False, tool_name = name, data = [], error = Some msg, meta = []\<rparr>"

text \<open>Lines 90-93 of \<open>_run_steps\<close>: the tool call and its \<open>except Exception\<close> handler.\<close>

definition call_tool ::
  "'w tool \<Rightarrow> string \<Rightarrow> py_dict \<Rightarrow> 'w \<Rightarrow> (exn + ToolResult) \<times> 'w" where
  "call_tool tool name args w =
     (case tool args w of
        (Inr res, w') \<Rightarrow> (Inr res, w')
      | (Inl msg, w') \<Rightarrow> (ToolResult_validate (failed_result name msg), w'))"

definition str_opt :: "string option \<Rightarrow> string" where
  "str_opt e = (case e of None \<Rightarrow> ''None'' | Some m \<Rightarrow> m)"

text \<open>
  One iteration of the loop of \<open>_run_steps\<close>. The state is mutated in place, so an exception
  leaves what was written before it: the outcome is the exception (if any), the state and the
  world.
\<close>

definition run_step ::
  "'w env \<Rightarrow> 'w chat option \<Rightarrow> PlanStep \<Rightarrow> ExecutionState \<Rightarrow> 'w \<Rightarrow>
     exn option \<times> ExecutionState \<times> 'w" where
  "run_step env llm step state w =
     (if \<not> deps_ok step state then
        (None,
         state\<lparr>step_status := (step_status state)(PlanStep.id step \<mapsto> ''skipped''),
               logs := logs state @
                 [''Step '' @ str_int env (PlanStep.id step) @
                  '' skipped due to failed dependency: '' @
                  repr_int_list env (PlanStep.depends_on step)]\<rparr>,
         w)
      else
        (case PlanStep.tool_name step of
           None \<Rightarrow>
             (case compose_text env llm state step w of
                (Inl e, w') \<Rightarrow> (Some e, state, w')
              | (Inr text, w') \<Rightarrow>
                  (None,
                   state\<lparr>step_status := (step_status state)(PlanStep.id step \<mapsto> ''ok''),
                         results := (results state)(PlanStep.output_key step \<mapsto> Composed text),
                         logs := logs state @
                           [''Step '' @ str_int env (PlanStep.id step) @
                            '' composed text under ''
                            @ apostrophe @ PlanStep.output_key step @ apostrophe]\<rparr>,
                   w'))
         | Some name \<Rightarrow>
             (case get_tool env name of
                Inl e \<Rightarrow> (Some e, state, w)
              | Inr tool \<Rightarrow>
                  (let state1 = state\<lparr>logs := logs state @
                         [''Step '' @ str_int env (PlanStep.id step) @ '' calling tool '' @
                          apostrophe @ name @ apostrophe @ '' with args='' @
                          repr_dict env (PlanStep.tool_args step)]\<rparr>
                   in
                     (case call_tool tool name (PlanStep.tool_args step) w of
                        (Inl e, w') \<Rightarrow> (Some e, state1, w')
                      | (Inr tool_res, w') \<Rightarrow>
                          (None,
                           state1\<lparr>results :=
                                    (results state1)(PlanStep.output_key step \<mapsto> Dumped tool_res),
                                  step_status :=
                                    (step_status state1)(PlanStep.id step \<mapsto>
                                       (if ok tool_res then ''ok'' else ''failed'')),
                                  logs := logs state1 @
                                    [if ok tool_res then
                                       ''Step '' @ str_int env (PlanStep.id step) @
                                       '' ok -> stored '' @
                                       apostrophe @ PlanStep.output_key step @ apostrophe
                                     else
                                       ''Step '' @ str_int env (PlanStep.id step) @
                                       '' failed: '' @ str_opt (error tool_res)]\<rparr>,
                           w'))))))"

fun run_steps ::
  "'w env \<Rightarrow> 'w chat option \<Rightarrow> PlanStep list \<Rightarrow> ExecutionState \<Rightarrow> 'w \<Rightarrow>
     exn option \<times> ExecutionState \<times> 'w" where
  "run_steps env llm [] state w = (None, state, w)"
| "run_steps env llm (step # rest) state w =
     (case run_step env llm step state w of
        (Some e, state', w') \<Rightarrow> (Some e, state', w')
      | (None, state', w') \<Rightarrow> run_steps env llm rest state' w')"

text \<open>\<open>ExecutorAgent.run\<close>: a fresh state, then the plan's steps.\<close>

definition ExecutorAgent_run ::
  "'w env \<Rightarrow> 'w chat option \<Rightarrow> string \<Rightarrow> AgentPlan \<Rightarrow> 'w \<Rightarrow>
     exn option \<times> ExecutionState \<times> 'w" where
  "ExecutorAgent_run env llm t p w =
     run_steps env llm (steps p)
       \<lparr>task = t, plan = p, results = Map.empty, step_status = Map.empty, logs = []\<rparr> w"

text \<open>
  \<open>run_fix_steps\<close> first builds a \<open>PlanStep\<close> from every fix step; the constructor validates,
  and its \<open>ValidationError\<close> leaves the loop before any step has run.
\<close>

definition pseudo_step :: "VerifierStep \<Rightarrow> exn + PlanStep" where
  "pseudo_step fs =
     PlanStep_validate
       \<lparr>raw_id = VerifierStep.id fs, raw_action = VerifierStep.action fs,
        raw_tool_name = Some (VerifierStep.tool_name fs),
        raw_tool_args = VerifierStep.tool_args fs,
        raw_output_key = VerifierStep.output_key fs,
        raw_depends_on = VerifierStep.depends_on fs\<rparr>"

fun pseudo_steps :: "VerifierStep list \<Rightarrow> exn + PlanStep list" where
  "pseudo_steps [] = Inr []"
| "pseudo_steps (fs # rest) =
     (case pseudo_step fs of
        Inl e \<Rightarrow> Inl e
      | Inr s \<Rightarrow> (case pseudo_steps rest of Inl e \<Rightarrow> Inl e | Inr ss \<Rightarrow> Inr (s # ss)))"

definition run_fix_steps ::
  "'w env \<Rightarrow> 'w chat option \<Rightarrow> ExecutionState \<Rightarrow> VerifierStep list \<Rightarrow> 'w \<Rightarrow>
     exn option \<times> ExecutionState \<times> 'w" where
  "run_fix_steps env llm state fixes w =
     (case pseudo_steps fixes of
        Inl e \<Rightarrow> (Some e, state, w)
      | Inr ss \<Rightarrow> run_steps env llm ss state w)"

section \<open>Parsing a model reply (llm/groq_client.py)\<close>

text \<open>
  \<open>re.search(r"(\{.*\}|\[.*\])", text, flags=re.DOTALL)\<close>. With \<open>DOTALL\<close> the dot matches
  every character, and \<open>.*\<close> is greedy: anchored at an opening brace the first alternative
  matches up to the last closing brace after it, and likewise the second for brackets.
  \<open>upto_last c s\<close> is what \<open>.*c\<close> matches at the head of \<open>s\<close>.
\<close>

definition upto_last :: "char \<Rightarrow> string \<Rightarrow> string option" where
  "upto_last c s =
     (if c \<in> set s then Some (rev (dropWhile (\<lambda>x. x \<noteq> c) (rev s))) else None)"

fun match_here :: "string \<Rightarrow> string option" where
  "match_here [] = None"
| "match_here (c # rest) =
     (if c = CHR ''{'' then
        (case upto_last (CHR ''}'') rest of Some m \<Rightarrow> Some (c # m) | None \<Rightarrow> None)
      else if c = CHR ''['' then
        (case upto_last (CHR '']'') rest of Some m \<Rightarrow> Some (c # m) | None \<Rightarrow> None)
      else None)"

text \<open>The search tries every start position from the left and takes the first match.\<close>

fun re_search :: "string \<Rightarrow> string option" where
  "re_search [] = None"
| "re_search (c # rest) =
     (case match_here (c # rest) of
        Some m \<Rightarrow> Some m
      | None \<Rightarrow> re_search rest)"

text \<open>
  \<open>safe_json_loads\<close>. The first \<open>json.loads\<close> is inside \<open>try ... except Exception: pass\<close>; the
  second is not, so its \<open>JSONDecodeError\<close> leaves the function.
\<close>

definition safe_json_loads :: "'w env \<Rightarrow> string \<Rightarrow> exn + json" where
  "safe_json_loads env text0 =
     (let text = strip text0 in
        (case json_loads env text of
           Inr v \<Rightarrow> Inr v
         | Inl m \<Rightarrow>
             (case re_search text of
                Some candidate \<Rightarrow>
                  (case json_loads env candidate of
                     Inr v \<Rightarrow> Inr v
                   | Inl m' \<Rightarrow> Inl (JSONDecodeError m'))
              | None \<Rightarrow> Inl (ValueError ''Could not parse JSON from model output.''))))"

section \<open>The schema-repair loop of Planner and Verifier (agents/planner.py, agents/verifier.py)\<close>

text \<open>
  \<open>model_validate\<close> on a decoded document: pydantic's coercion to the field types, then the
  declared constraints and validators.
\<close>

definition AgentPlan_model_validate :: "'w env \<Rightarrow> json \<Rightarrow> exn + AgentPlan" where
  "AgentPlan_model_validate env d =
     (case coerce_plan env d of
        Inl errs \<Rightarrow> Inl (ValidationError errs)
      | Inr r \<Rightarrow> AgentPlan_validate r)"

definition VerificationResult_model_validate ::
  "'w env \<Rightarrow> json \<Rightarrow> exn + VerificationResult" where
  "VerificationResult_model_validate env d =
     (case coerce_verification env d of
        Inl errs \<Rightarrow> Inl (ValidationError errs)
      | Inr r \<Rightarrow> VerificationResult_validate r)"

definition repair_user :: "string \<Rightarrow> string \<Rightarrow> string" where
  "repair_user last_err last_text =
     ''Your previous output was invalid JSON or did not match the schema. '' @
     ''Fix it and output ONLY valid JSON.'' @ newline @
     ''Error: '' @ last_err @ newline @
     ''Previous output:'' @ newline @
     last_text"

text \<open>The body of the \<open>try\<close> block: parse the reply, then validate the document.\<close>

definition parse_plan :: "'w env \<Rightarrow> string \<Rightarrow> exn + AgentPlan" where
  "parse_plan env content =
     (case safe_json_loads env content of
        Inl e \<Rightarrow> Inl e
      | Inr d \<Rightarrow> AgentPlan_model_validate env d)"

definition parse_verification :: "'w env \<Rightarrow> string \<Rightarrow> exn + VerificationResult" where
  "parse_verification env content =
     (case safe_json_loads env content of
        Inl e \<Rightarrow> Inl e
      | Inr d \<Rightarrow> VerificationResult_model_validate env d)"

text \<open>
  \<open>PlannerAgent.plan\<close>: \<open>for _attempt in range(3)\<close>, as a recursion on the attempts left.
  \<open>chat\<close> is called outside the \<open>try\<close> block, so an exception of the client ends the loop.
\<close>

fun plan_attempts ::
  "'w env \<Rightarrow> nat \<Rightarrow> message list \<Rightarrow> string option \<Rightarrow> 'w \<Rightarrow> (exn + AgentPlan) \<times> 'w" where
  "plan_attempts env 0 messages last_err w =
     (Inl (RuntimeError
        (''PlannerAgent failed to produce valid plan. Last error: '' @ str_opt last_err)), w)"
| "plan_attempts env (Suc n) messages last_err w =
     (case GroqClient_chat env messages 1400 True w of
        (Inl e, w') \<Rightarrow> (Inl e, w')
      | (Inr content, w') \<Rightarrow>
          (case parse_plan env content of
             Inr p \<Rightarrow> (Inr p, w')
           | Inl e \<Rightarrow>
               plan_attempts env n
                 [(''system'', PLANNER_SYSTEM env),
                  (''user'', repair_user (str_exn e) content)]
                 (Some (str_exn e)) w'))"

definition PlannerAgent_plan :: "'w env \<Rightarrow> string \<Rightarrow> 'w \<Rightarrow> (exn + AgentPlan) \<times> 'w" where
  "PlannerAgent_plan env t w =
     plan_attempts env 3
       [(''system'', PLANNER_SYSTEM env), (''user'', planner_user_prompt env t)] None w"

text \<open>\<open>VerifierAgent.verify\<close>: the same loop against the \<open>VerificationResult\<close> schema.\<close>

fun verify_attempts ::
  "'w env \<Rightarrow> nat \<Rightarrow> message list \<Rightarrow> string option \<Rightarrow> 'w \<Rightarrow>
     (exn + VerificationResult) \<times> 'w" where
  "verify_attempts env 0 messages last_err w =
     (Inl (RuntimeError
        (''VerifierAgent failed to produce valid verification JSON. Last error: '' @
         str_opt last_err)), w)"
| "verify_attempts env (Suc n) messages last_err w =
     (case GroqClient_chat env messages 1600 True w of
        (Inl e, w') \<Rightarrow> (Inl e, w')
      | (Inr content, w') \<Rightarrow>
          (case parse_verification env content of
             Inr v \<Rightarrow> (Inr v, w')
           | Inl e \<Rightarrow>
               verify_attempts env n
                 [(''system'', VERIFIER_SYSTEM env),
                  (''user'', repair_user (str_exn e) content)]
                 (Some (str_exn e)) w'))"

definition VerifierAgent_verify ::
  "'w env \<Rightarrow> string \<Rightarrow> AgentPlan \<Rightarrow> (string \<rightharpoonup> result_value) \<Rightarrow> 'w \<Rightarrow>
     (exn + VerificationResult) \<times> 'w" where
  "VerifierAgent_verify env t p res w =
     verify_attempts env 3
       [(''system'', VERIFIER_SYSTEM env), (''user'', verifier_user_prompt env t p res)] None w"

section \<open>The orchestrator (main.py)\<close>

text \<open>
  The \<open>while\<close> loop of \<open>run_task\<close>. Its outcome is the exception that ended it (if any) and
  the values of \<open>state\<close>, \<open>verification\<close> and \<open>rounds\<close> at that moment. \<open>batches\<close> is a ghost
  counter: it is incremented where a batch is handed to the Executor and read by no branch.
\<close>

function fix_loop ::
  "'w env \<Rightarrow> string \<Rightarrow> AgentPlan \<Rightarrow> int \<Rightarrow> ExecutionState \<Rightarrow> VerificationResult \<Rightarrow> int \<Rightarrow>
     nat \<Rightarrow> 'w \<Rightarrow> exn option \<times> ExecutionState \<times> VerificationResult \<times> int \<times> nat \<times> 'w" where
  "fix_loop env t p max_rounds state v rounds batches w =
     (if status v = ''needs_fix'' \<and> fix_steps v \<noteq> [] \<and> rounds < max_rounds then
        (case run_fix_steps env (Some (GroqClient_chat env)) state (fix_steps v) w of
           (Some e, state', w') \<Rightarrow> (Some e, state', v, rounds, Suc batches, w')
         | (None, state', w') \<Rightarrow>
             (case VerifierAgent_verify env t p (ExecutionState.results state') w' of
                (Inl e, w'') \<Rightarrow> (Some e, state', v, rounds, Suc batches, w'')
              | (Inr v', w'') \<Rightarrow>
                  fix_loop env t p max_rounds state' v' (rounds + 1) (Suc batches) w''))
      else (None, state, v, rounds, batches, w))"
  by pat_completeness auto
termination
  by (relation "measure (\<lambda>(env, t, p, max_rounds, state, v, rounds, batches, w).
        nat (max_rounds - rounds))") auto

declare fix_loop.simps [simp del]

text \<open>\<open>_build_agents\<close> raises when \<open>GROQ_API_KEY\<close> is unset or empty.\<close>

definition build_agents :: "'w env \<Rightarrow> exn + 'w chat" where
  "build_agents env =
     (case GROQ_API_KEY env of
        None \<Rightarrow> Inl (RuntimeError
          ''GROQ_API_KEY is missing. Set it in .env or environment variables.'')
      | Some k \<Rightarrow>
          if k = [] then Inl (RuntimeError
            ''GROQ_API_KEY is missing. Set it in .env or environment variables.'')
          else Inr (GroqClient_chat env))"

text \<open>
  \<open>run_task\<close>: the response or the exception that ended the run, the number of batches handed
  to the Executor (ghost), and the world.
\<close>

definition run_task ::
  "'w env \<Rightarrow> string \<Rightarrow> int \<Rightarrow> 'w \<Rightarrow> (exn + RunResponse) \<times> nat \<times> 'w" where
  "run_task env t max_rounds w =
     (case build_agents env of
        Inl e \<Rightarrow> (Inl e, 0, w)
      | Inr llm \<Rightarrow>
          (case PlannerAgent_plan env t w of
             (Inl e, w1) \<Rightarrow> (Inl e, 0, w1)
           | (Inr p, w1) \<Rightarrow>
               (case ExecutorAgent_run env (Some llm) t p w1 of
                  (Some e, state, w2) \<Rightarrow> (Inl e, 1, w2)
                | (None, state, w2) \<Rightarrow>
                    (case VerifierAgent_verify env t p (ExecutionState.results state) w2 of
                       (Inl e, w3) \<Rightarrow> (Inl e, 1, w3)
                     | (Inr v, w3) \<Rightarrow>
                         (case fix_loop env t p max_rounds state v 1 1 w3 of
                            (Some e, state', v', rounds, batches, w4) \<Rightarrow> (Inl e, batches, w4)
                          | (None, state', v', rounds, batches, w4) \<Rightarrow>
                              (Inr \<lparr>RunResponse.task = t, plan = p,
                                    results = ExecutionState.results state',
                                    verification = v',
                                    final_output = VerificationResult.final_output v',
                                    logs = ExecutionState.logs state'\<rparr>,
                               batches, w4))))))"

section \<open>The span of the specification's parsing policy\<close>



text \<open>
  Position \<open>i\<close> of \<open>s\<close> starts a match of the pattern: an opening brace with a closing brace
  somewhere after it, or an opening bracket with a closing bracket somewhere after it.
\<close>

definition span_starts_at :: "string \<Rightarrow> nat \<Rightarrow> bool" where
  "span_starts_at s i =
     (i < length s \<and>
      (s ! i = CHR ''{'' \<and> CHR ''}'' \<in> set (drop (Suc i) s) \<or>
       s ! i = CHR ''['' \<and> CHR '']'' \<in> set (drop (Suc i) s)))"

definition closer :: "char \<Rightarrow> char" where
  "closer c = (if c = CHR ''{'' then CHR ''}'' else CHR '']'')"

section \<open>A scripted model\<close>

text \<open>
  To observe what the pipeline sends to the model, the world is instantiated with a
  transcript: the number of replies given so far and the conversations received, in order.
  The scripted client answers call number \<open>n\<close> with \<open>replies n\<close>, for an arbitrary
  \<open>replies\<close>.
\<close>

type_synonym transcript = "nat \<times> message list list"

definition scripted_chat :: "(nat \<Rightarrow> string) \<Rightarrow> transcript chat" where
  "scripted_chat replies messages max_tokens json_mode w =
     (Inr (replies (fst w)), (Suc (fst w), snd w @ [messages]))"



section \<open>The tool capabilities (tools/*.py)\<close>

text \<open>
  The three registered tools talk to HTTP services. What the network and the libraries do is a
  parameter again: \<open>requests_get\<close> answers a response or \<open>Inl m\<close> for a
  \<open>RequestException\<close> with message \<open>m\<close>; \<open>response_json\<close> is \<open>r.json()\<close>, \<open>Inl\<close> for its
  \<open>ValueError\<close>. The extraction of the normalised payload from a decoded document (field
  lookups, float arithmetic, time formatting) is a parameter too: it yields the \<open>data\<close> (and
  for GitHub the \<open>meta\<close>) mapping, or \<open>Inl m\<close> when it raises. The control flow that decides
  which \<open>ToolResult\<close> is built, and whether \<open>call\<close> returns or raises, follows the source. An
  exception is represented by the text \<open>str(e)\<close>, all the Executor reads of it.
\<close>

record response =
  status_code :: int
  body :: string
  content_type :: string
  final_url :: string

record 'w net =
  requests_get ::
    "string \<Rightarrow> py_dict \<Rightarrow> (string \<times> string) list \<Rightarrow> 'w \<Rightarrow> (string + response) \<times> 'w"
  response_json :: "response \<Rightarrow> string + json"
  OPENWEATHER_API_KEY :: "string option"
  NEWSAPI_KEY :: "string option"
  fmt_int :: "int \<Rightarrow> string"
  repr_json :: "json \<Rightarrow> string"
  int_of_str :: "string \<Rightarrow> string + int"
  lower :: "string \<Rightarrow> string"
  github_payload :: "string \<Rightarrow> json \<Rightarrow> int \<Rightarrow> response \<Rightarrow> string + py_dict \<times> py_dict"
  openweather_payload :: "string \<Rightarrow> json \<Rightarrow> json \<Rightarrow> string + py_dict"
  open_meteo_payload :: "string \<Rightarrow> json \<Rightarrow> json \<Rightarrow> string + py_dict"
  newsapi_articles :: "json \<Rightarrow> int \<Rightarrow> string + json list"
  gdelt_articles :: "json \<Rightarrow> int \<Rightarrow> string + json list"
  rss_articles :: "string \<Rightarrow> int \<Rightarrow> string + json list"

subsection \<open>Python values\<close>

text \<open>Truthiness, \<open>str(v)\<close>, \<open>int(v)\<close>, \<open>d.get(k, default)\<close> and \<open>v.get(k)\<close>.\<close>

fun truthy :: "json \<Rightarrow> bool" where
  "truthy JNull = False"
| "truthy (JBool b) = b"
| "truthy (JInt i) = (i \<noteq> 0)"
| "truthy (JStr s) = (s \<noteq> [])"
| "truthy (JList xs) = (xs \<noteq> [])"
| "truthy (JObj kv) = (kv \<noteq> [])"

definition py_str :: "'w net \<Rightarrow> json \<Rightarrow> string" where
  "py_str net v = (case v of JStr s \<Rightarrow> s | _ \<Rightarrow> repr_json net v)"

definition py_int :: "'w net \<Rightarrow> json \<Rightarrow> string + int" where
  "py_int net v =
     (case v of
        JInt i \<Rightarrow> Inr i
      | JBool b \<Rightarrow> Inr (if b then 1 else 0)
      | JStr s \<Rightarrow> int_of_str net s
      | _ \<Rightarrow> Inl ''int() argument must be a string, a bytes-like object or a real number'')"

definition dict_get :: "py_dict \<Rightarrow> string \<Rightarrow> json \<Rightarrow> json" where
  "dict_get d k dflt = (case map_of d k of None \<Rightarrow> dflt | Some v \<Rightarrow> v)"

definition py_get :: "json \<Rightarrow> string \<Rightarrow> string + json" where
  "py_get v k =
     (case v of
        JObj kv \<Rightarrow> Inr (dict_get kv k JNull)
      | _ \<Rightarrow> Inl (''object has no attribute 'get'' @ apostrophe))"

definition or_else :: "json \<Rightarrow> json \<Rightarrow> json" where
  "or_else v d = (if truthy v then v else d)"

definition opt_json :: "string option \<Rightarrow> json" where
  "opt_json e = (case e of None \<Rightarrow> JNull | Some m \<Rightarrow> JStr m)"

definition resp_ok :: "response \<Rightarrow> bool" where
  "resp_ok r = (\<not> (400 \<le> status_code r \<and> status_code r < 600))"

definition transient :: "int \<Rightarrow> bool" where
  "transient code = (code \<in> set [429, 500, 502, 503, 504])"

subsection \<open>Retry (utils/retry.py)\<close>

text \<open>
  \<open>with_retry(attempts=n)\<close>: the decorated function is called until it returns or has raised
  \<open>RetryableError\<close> \<open>n\<close> times; the last error is raised again (\<open>reraise=True\<close>). An attempt
  answers \<open>Inl m\<close> for \<open>RetryableError(m)\<close>. The waiting between attempts is not represented.
\<close>

fun with_retry :: "nat \<Rightarrow> ('w \<Rightarrow> (string + 'a) \<times> 'w) \<Rightarrow> 'w \<Rightarrow> (string + 'a) \<times> 'w" where
  "with_retry 0 attempt w = attempt w"
| "with_retry (Suc 0) attempt w = attempt w"
| "with_retry (Suc (Suc n)) attempt w =
     (case attempt w of
        (Inr r, w') \<Rightarrow> (Inr r, w')
      | (Inl m, w') \<Rightarrow> with_retry (Suc n) attempt w')"

definition tool_failure :: "string \<Rightarrow> string \<Rightarrow> py_dict \<Rightarrow> ToolResult" where
  "tool_failure name msg m = \<lparr>ok = False, tool_name = name, data = [], error = Some msg, meta = m\<rparr>"

definition tool_success :: "string \<Rightarrow> py_dict \<Rightarrow> py_dict \<Rightarrow> ToolResult" where
  "tool_success name d m = \<lparr>ok = True, tool_name = name, data = d, error = None, meta = m\<rparr>"

definition clamp_top_n :: "int \<Rightarrow> int" where
  "clamp_top_n top_n = max 1 (min top_n 20)"

subsection \<open>GitHubTool\<close>

definition github_attempt :: "'w net \<Rightarrow> string \<Rightarrow> py_dict \<Rightarrow> 'w \<Rightarrow> (string + response) \<times> 'w" where
  "github_attempt net path params w =
     (case requests_get net (''https://api.github.com'' @ path) params
             [(''Accept'', ''application/vnd.github+json''), (''User-Agent'', ''ai-ops-assistant'')]
             w of
        (Inl m, w') \<Rightarrow> (Inl (''GitHub request failed: '' @ m), w')
      | (Inr r, w') \<Rightarrow>
          if transient (status_code r) then
            (Inl (''GitHub transient error '' @ fmt_int net (status_code r) @ '': '' @
                  take 200 (body r)), w')
          else if status_code r = 403 \<and> sublist ''rate limit'' (lower net (body r)) then
            (Inl (''GitHub rate limited: '' @ take 200 (body r)), w')
          else (Inr r, w'))"

definition GitHubTool_get :: "'w net \<Rightarrow> string \<Rightarrow> py_dict \<Rightarrow> 'w \<Rightarrow> (string + response) \<times> 'w" where
  "GitHubTool_get net path params = with_retry 3 (github_attempt net path params)"

definition GitHubTool :: "'w net \<Rightarrow> 'w tool" where
  "GitHubTool net args w =
     (let query = strip (py_str net (dict_get args ''query'' (JStr ''''))) in
        (case py_int net (dict_get args ''top_n'' (JInt 5)) of
           Inl m \<Rightarrow> (Inl m, w)
         | Inr top_n0 \<Rightarrow>
             if query = [] then
               (Inr (tool_failure ''github_repo_search'' (''Missing 'query'' @ apostrophe) []), w)
             else
               (let top_n = clamp_top_n top_n0 in
                  (case GitHubTool_get net ''/search/repositories''
                          [(''q'', JStr query), (''sort'', JStr ''stars''),
                           (''order'', JStr ''desc''), (''per_page'', JInt top_n)] w of
                     (Inl m, w') \<Rightarrow> (Inr (tool_failure ''github_repo_search'' m []), w')
                   | (Inr r, w') \<Rightarrow>
                       if \<not> resp_ok r then
                         (Inr (tool_failure ''github_repo_search''
                                 (''GitHub error '' @ fmt_int net (status_code r) @ '': '' @
                                  take 200 (body r))
                                 [(''status_code'', JInt (status_code r))]), w')
                       else
                         (case response_json net r of
                            Inl m \<Rightarrow> (Inl m, w')
                          | Inr d \<Rightarrow>
                              (case github_payload net query d top_n r of
                                 Inl m \<Rightarrow> (Inl m, w')
                               | Inr (out, m) \<Rightarrow>
                                   (Inr (tool_success ''github_repo_search'' out m), w')))))))"

subsection \<open>WeatherTool\<close>

definition openweather_key :: "'w net \<Rightarrow> string" where
  "openweather_key net =
     strip (case OPENWEATHER_API_KEY net of None \<Rightarrow> [] | Some k \<Rightarrow> k)"

definition weather_attempt ::
  "'w net \<Rightarrow> string \<Rightarrow> py_dict \<Rightarrow> 'w \<Rightarrow> (string + response) \<times> 'w" where
  "weather_attempt net url params w =
     (case requests_get net url params [] w of
        (Inl m, w') \<Rightarrow> (Inl (''HTTP request failed: '' @ m), w')
      | (Inr r, w') \<Rightarrow>
          if transient (status_code r) then
            (Inl (''Transient HTTP '' @ fmt_int net (status_code r) @ '': '' @
                  take 200 (body r)), w')
          else (Inr r, w'))"

definition WeatherTool_get ::
  "'w net \<Rightarrow> string \<Rightarrow> py_dict \<Rightarrow> 'w \<Rightarrow> (string + response) \<times> 'w" where
  "WeatherTool_get net url params = with_retry 3 (weather_attempt net url params)"

text \<open>\<open>_ow_geocode\<close>: \<open>None\<close>, the first element of the answer, or an exception.\<close>

definition ow_geocode :: "'w net \<Rightarrow> string \<Rightarrow> 'w \<Rightarrow> (string + json option) \<times> 'w" where
  "ow_geocode net city w =
     (case WeatherTool_get net ''https://api.openweathermap.org/geo/1.0/direct''
             [(''q'', JStr city), (''limit'', JInt 1), (''appid'', JStr (openweather_key net))]
             w of
        (Inl m, w') \<Rightarrow> (Inl m, w')
      | (Inr r, w') \<Rightarrow>
          if \<not> resp_ok r then (Inr None, w')
          else
            (case response_json net r of
               Inl m \<Rightarrow> (Inl m, w')
             | Inr d \<Rightarrow>
                 (case d of
                    JList (x # xs) \<Rightarrow> (Inr (Some x), w')
                  | _ \<Rightarrow> (Inr None, w'))))"

definition openweather_current ::
  "'w net \<Rightarrow> string \<Rightarrow> 'w \<Rightarrow> (string + ToolResult) \<times> 'w" where
  "openweather_current net city w =
     (if openweather_key net = [] then
        (Inr (tool_failure ''weather_current'' ''OPENWEATHER_API_KEY not set''
                [(''provider'', JStr ''openweather'')]), w)
      else
        (case ow_geocode net city w of
           (Inl m, w') \<Rightarrow> (Inl m, w')
         | (Inr g, w') \<Rightarrow>
             (case (case g of None \<Rightarrow> None | Some geo \<Rightarrow> if truthy geo then Some geo else None) of
                None \<Rightarrow>
                  (Inr (tool_failure ''weather_current''
                          (''OpenWeather geocode failed for: '' @ city)
                          [(''provider'', JStr ''openweather'')]), w')
              | Some geo \<Rightarrow>
                  (case py_get geo ''lat'' of
                     Inl m \<Rightarrow> (Inl m, w')
                   | Inr lat \<Rightarrow>
                       (case WeatherTool_get net
                               ''https://api.openweathermap.org/data/2.5/weather''
                               [(''lat'', lat), (''lon'', dict_get
                                   (case geo of JObj kv \<Rightarrow> kv | _ \<Rightarrow> []) ''lon'' JNull),
                                (''appid'', JStr (openweather_key net)),
                                (''units'', JStr ''metric'')] w' of
                          (Inl m, w'') \<Rightarrow> (Inl m, w'')
                        | (Inr r, w'') \<Rightarrow>
                            if \<not> resp_ok r then
                              (Inr (tool_failure ''weather_current''
                                      (''OpenWeather error '' @ fmt_int net (status_code r) @
                                       '': '' @ take 200 (body r))
                                      [(''provider'', JStr ''openweather''),
                                       (''status_code'', JInt (status_code r))]), w'')
                            else
                              (case response_json net r of
                                 Inl m \<Rightarrow> (Inl m, w'')
                               | Inr j \<Rightarrow>
                                   (case openweather_payload net city geo j of
                                      Inl m \<Rightarrow> (Inl m, w'')
                                    | Inr out \<Rightarrow>
                                        (Inr (tool_success ''weather_current'' out
                                                [(''provider'', JStr ''openweather''),
                                                 (''status_code'', JInt (status_code r))]),
                                         w''))))))))"

text \<open>\<open>_om_geocode\<close>: \<open>results[0]\<close> of a truthy \<open>results\<close> that is not a list raises or, for a
  string, answers its first character.\<close>

definition om_geocode :: "'w net \<Rightarrow> string \<Rightarrow> 'w \<Rightarrow> (string + json option) \<times> 'w" where
  "om_geocode net city w =
     (case WeatherTool_get net ''https://geocoding-api.open-meteo.com/v1/search''
             [(''name'', JStr city), (''count'', JInt 1), (''language'', JStr ''en''),
              (''format'', JStr ''json'')] w of
        (Inl m, w') \<Rightarrow> (Inl m, w')
      | (Inr r, w') \<Rightarrow>
          if \<not> resp_ok r then (Inr None, w')
          else
            (case response_json net r of
               Inl m \<Rightarrow> (Inl m, w')
             | Inr j \<Rightarrow>
                 (case py_get j ''results'' of
                    Inl m \<Rightarrow> (Inl m, w')
                  | Inr res \<Rightarrow>
                      if \<not> truthy res then (Inr None, w')
                      else
                        (case res of
                           JList (x # xs) \<Rightarrow> (Inr (Some x), w')
                         | JStr (c # cs) \<Rightarrow> (Inr (Some (JStr [c])), w')
                         | _ \<Rightarrow> (Inl ''results[0]'', w')))))"

definition open_meteo_current ::
  "'w net \<Rightarrow> string \<Rightarrow> 'w \<Rightarrow> (string + ToolResult) \<times> 'w" where
  "open_meteo_current net city w =
     (case om_geocode net city w of
        (Inl m, w') \<Rightarrow> (Inl m, w')
      | (Inr g, w') \<Rightarrow>
          (case (case g of None \<Rightarrow> None | Some geo \<Rightarrow> if truthy geo then Some geo else None) of
             None \<Rightarrow>
               (Inr (tool_failure ''weather_current''
                       (''Open-Meteo geocode failed for: '' @ city)
                       [(''provider'', JStr ''open-meteo'')]), w')
           | Some geo \<Rightarrow>
               (case py_get geo ''latitude'' of
                  Inl m \<Rightarrow> (Inl m, w')
                | Inr lat \<Rightarrow>
                    (case WeatherTool_get net ''https://api.open-meteo.com/v1/forecast''
                            [(''latitude'', lat),
                             (''longitude'', dict_get
                                (case geo of JObj kv \<Rightarrow> kv | _ \<Rightarrow> []) ''longitude'' JNull),
                             (''current'', JStr
                                (''temperature_2m,apparent_temperature,relative_humidity_2m,'' @
                                 ''wind_speed_10m,weather_code'')),
                             (''timezone'', JStr ''auto'')] w' of
                       (Inl m, w'') \<Rightarrow> (Inl m, w'')
                     | (Inr r, w'') \<Rightarrow>
                         if \<not> resp_ok r then
                           (Inr (tool_failure ''weather_current''
                                   (''Open-Meteo error '' @ fmt_int net (status_code r) @
                                    '': '' @ take 200 (body r))
                                   [(''provider'', JStr ''open-meteo''),
                                    (''status_code'', JInt (status_code r))]), w'')
                         else
                           (case response_json net r of
                              Inl m \<Rightarrow> (Inl m, w'')
                            | Inr j \<Rightarrow>
                                (case open_meteo_payload net city geo j of
                                   Inl m \<Rightarrow> (Inl m, w'')
                                 | Inr out \<Rightarrow>
                                     (Inr (tool_success ''weather_current'' out
                                             [(''provider'', JStr ''open-meteo''),
                                              (''status_code'', JInt (status_code r))]),
                                      w'')))))))"

text \<open>\<open>WeatherTool.call\<close>. \<open>ow_error\<close> is \<open>ow_res.error or "OpenWeather failed"\<close>.\<close>

definition error_or :: "string option \<Rightarrow> string \<Rightarrow> string" where
  "error_or e d = (case e of None \<Rightarrow> d | Some m \<Rightarrow> if m = [] then d else m)"

definition weather_fallback ::
  "'w net \<Rightarrow> string \<Rightarrow> string option \<Rightarrow> 'w \<Rightarrow> (string + ToolResult) \<times> 'w" where
  "weather_fallback net city ow_error w =
     (case open_meteo_current net city w of
        (Inl m, w') \<Rightarrow> (Inl m, w')
      | (Inr om_res, w') \<Rightarrow>
          if ok om_res then
            (Inr (om_res\<lparr>meta :=
                     (case ow_error of
                        None \<Rightarrow> meta om_res
                      | Some e \<Rightarrow>
                          meta om_res @
                          [(''fallback_from'', JStr ''openweather''),
                           (''openweather_error'', JStr e)])\<rparr>), w')
          else
            (Inr (tool_failure ''weather_current''
                    (''Weather lookup failed. '' @
                     (case ow_error of None \<Rightarrow> [] | Some e \<Rightarrow> ''OpenWeather: '' @ e @ '' | '') @
                     ''Open-Meteo: '' @ error_or (error om_res) ''failed'')
                    [(''provider'', JStr ''combined'')]), w'))"

definition WeatherTool :: "'w net \<Rightarrow> 'w tool" where
  "WeatherTool net args w =
     (let city = strip (py_str net (dict_get args ''city'' (JStr ''''))) in
        if city = [] then (Inr (tool_failure ''weather_current'' (''Missing 'city'' @ apostrophe) []), w)
        else if openweather_key net \<noteq> [] then
          (case openweather_current net city w of
             (Inl m, w') \<Rightarrow> (Inl m, w')
           | (Inr ow_res, w') \<Rightarrow>
               if ok ow_res then (Inr ow_res, w')
               else weather_fallback net city
                      (Some (error_or (error ow_res) ''OpenWeather failed'')) w')
        else weather_fallback net city None w)"

subsection \<open>NewsTool\<close>

definition newsapi_key :: "'w net \<Rightarrow> string" where
  "newsapi_key net = (case NEWSAPI_KEY net of None \<Rightarrow> [] | Some k \<Rightarrow> k)"

text \<open>\<open>{**default_headers, **headers}\<close>: a given header replaces the default of its name.\<close>

definition merge_headers ::
  "(string \<times> string) list \<Rightarrow> (string \<times> string) list \<Rightarrow> (string \<times> string) list" where
  "merge_headers defaults given =
     map (\<lambda>(k, v). (k, case map_of given k of None \<Rightarrow> v | Some v' \<Rightarrow> v')) defaults @
     filter (\<lambda>(k, v). k \<notin> fst ` set defaults) given"

definition news_attempt ::
  "'w net \<Rightarrow> string \<Rightarrow> py_dict \<Rightarrow> (string \<times> string) list \<Rightarrow> 'w \<Rightarrow>
     (string + response) \<times> 'w" where
  "news_attempt net url params headers w =
     (case requests_get net url params
             (merge_headers
                [(''User-Agent'', ''ai_ops_assistant/1.0''),
                 (''Accept'', ''application/json, text/plain;q=0.9, */*;q=0.8'')]
                headers) w of
        (Inl m, w') \<Rightarrow> (Inl (''News request failed: '' @ m), w')
      | (Inr r, w') \<Rightarrow>
          if transient (status_code r) then
            (Inl (''News transient error '' @ fmt_int net (status_code r) @ '': '' @
                  take 200 (body r)), w')
          else if strip (body r) = [] then
            (Inl ''News provider returned an empty response body'', w')
          else (Inr r, w'))"

definition NewsTool_get ::
  "'w net \<Rightarrow> string \<Rightarrow> py_dict \<Rightarrow> (string \<times> string) list \<Rightarrow> 'w \<Rightarrow>
     (string + response) \<times> 'w" where
  "NewsTool_get net url params headers = with_retry 3 (news_attempt net url params headers)"

definition response_meta :: "string \<Rightarrow> response \<Rightarrow> py_dict" where
  "response_meta provider r =
     [(''provider'', JStr provider), (''status_code'', JInt (status_code r)),
      (''content_type'', JStr (content_type r)), (''final_url'', JStr (final_url r))]"

text \<open>\<open>_safe_json\<close>: the document, or the description of the response that did not parse.\<close>

definition safe_json :: "'w net \<Rightarrow> response \<Rightarrow> string + json" where
  "safe_json net r =
     (case response_json net r of
        Inr d \<Rightarrow> Inr d
      | Inl m \<Rightarrow>
          Inl (''status='' @ fmt_int net (status_code r) @ '', content_type='' @
               content_type r @ '', body_head='' @ take 300 (strip (body r))))"

definition newsapi_search ::
  "'w net \<Rightarrow> string \<Rightarrow> int \<Rightarrow> 'w \<Rightarrow> (string + ToolResult) \<times> 'w" where
  "newsapi_search net query top_n w =
     (case NewsTool_get net ''https://newsapi.org/v2/everything''
             [(''q'', JStr query), (''pageSize'', JInt top_n),
              (''sortBy'', JStr ''publishedAt''), (''language'', JStr ''en'')]
             [(''X-Api-Key'', newsapi_key net)] w of
        (Inl m, w') \<Rightarrow>
          (Inr (tool_failure ''news_search'' m [(''provider'', JStr ''newsapi'')]), w')
      | (Inr r, w') \<Rightarrow>
          if \<not> resp_ok r then
            (Inr (tool_failure ''news_search''
                    (''NewsAPI error '' @ fmt_int net (status_code r) @ '': '' @
                     take 200 (body r))
                    (response_meta ''newsapi'' r)), w')
          else
            (case safe_json net r of
               Inl parse_err \<Rightarrow>
                 (Inr (tool_failure ''news_search'' (''NewsAPI parse error: '' @ parse_err)
                         (response_meta ''newsapi'' r)), w')
             | Inr d \<Rightarrow>
                 (case py_get (or_else d (JObj [])) ''status'' of
                    Inl m \<Rightarrow> (Inl m, w')
                  | Inr st \<Rightarrow>
                      if st \<noteq> JStr ''ok'' then
                        (let msg = or_else (dict_get (case or_else d (JObj []) of
                                       JObj kv \<Rightarrow> kv | _ \<Rightarrow> []) ''message'' JNull)
                                     (JStr ''Unknown NewsAPI error'');
                             code = dict_get (case or_else d (JObj []) of
                                       JObj kv \<Rightarrow> kv | _ \<Rightarrow> []) ''code'' JNull
                         in
                           (case or_else code (JStr '''') of
                              JStr c \<Rightarrow>
                                (Inr (tool_failure ''news_search''
                                        (strip (''NewsAPI returned error: '' @ strip c @ '' '' @
                                                py_str net msg))
                                        [(''provider'', JStr ''newsapi''),
                                         (''status_code'', JInt (status_code r)),
                                         (''newsapi_code'', code),
                                         (''final_url'', JStr (final_url r))]), w')
                            | _ \<Rightarrow> (Inl (''object has no attribute 'strip'' @ apostrophe), w')))
                      else
                        (case newsapi_articles net d top_n of
                           Inl m \<Rightarrow> (Inl m, w')
                         | Inr articles \<Rightarrow>
                             (Inr (tool_success ''news_search''
                                     [(''query'', JStr query), (''articles'', JList articles),
                                      (''provider'', JStr ''newsapi'')]
                                     [(''provider'', JStr ''newsapi''),
                                      (''status_code'', JInt (status_code r))]), w')))))"

definition gdelt_search ::
  "'w net \<Rightarrow> string \<Rightarrow> int \<Rightarrow> 'w \<Rightarrow> (string + ToolResult) \<times> 'w" where
  "gdelt_search net query top_n w =
     (case NewsTool_get net ''https://api.gdeltproject.org/api/v2/doc/doc''
             [(''query'', JStr query), (''mode'', JStr ''ArtList''), (''format'', JStr ''json''),
              (''maxrecords'', JInt top_n), (''sort'', JStr ''HybridRel'')] [] w of
        (Inl m, w') \<Rightarrow>
          (Inr (tool_failure ''news_search'' m [(''provider'', JStr ''gdelt'')]), w')
      | (Inr r, w') \<Rightarrow>
          if \<not> resp_ok r then
            (Inr (tool_failure ''news_search''
                    (''GDELT error '' @ fmt_int net (status_code r) @ '': '' @
                     take 200 (body r))
                    (response_meta ''gdelt'' r)), w')
          else
            (case safe_json net r of
               Inl parse_err \<Rightarrow>
                 (Inr (tool_failure ''news_search''
                         (''GDELT parse error: '' @ parse_err @ ''.'' @
                          (if length query < 3 \<or> sublist ''too short'' (lower net (body r))
                           then '' Hint: try a longer query like 'artificial intelligence' '' @
                                ''or 'generative ai'.''
                           else []))
                         (response_meta ''gdelt'' r)), w')
             | Inr d \<Rightarrow>
                 (case gdelt_articles net d top_n of
                    Inl m \<Rightarrow> (Inl m, w')
                  | Inr articles \<Rightarrow>
                      (Inr (tool_success ''news_search''
                              [(''query'', JStr query), (''articles'', JList articles),
                               (''provider'', JStr ''gdelt'')]
                              [(''provider'', JStr ''gdelt''),
                               (''status_code'', JInt (status_code r))]), w'))))"

definition googlenews_rss_search ::
  "'w net \<Rightarrow> string \<Rightarrow> int \<Rightarrow> 'w \<Rightarrow> ToolResult \<times> 'w" where
  "googlenews_rss_search net query top_n w =
     (case NewsTool_get net ''https://news.google.com/rss/search''
             [(''q'', JStr query), (''hl'', JStr ''en-US''), (''gl'', JStr ''US''),
              (''ceid'', JStr ''US:en'')]
             [(''Accept'', ''application/rss+xml, application/xml;q=0.9, */*;q=0.8'')] w of
        (Inl m, w') \<Rightarrow>
          (tool_failure ''news_search'' m [(''provider'', JStr ''googlenews_rss'')], w')
      | (Inr r, w') \<Rightarrow>
          if \<not> resp_ok r then
            (tool_failure ''news_search''
               (''Google News RSS error '' @ fmt_int net (status_code r) @ '': '' @
                take 200 (body r))
               (response_meta ''googlenews_rss'' r), w')
          else
            (case rss_articles net (body r) top_n of
               Inl m \<Rightarrow>
                 (tool_failure ''news_search'' (''Google News RSS parse error: '' @ m)
                    (response_meta ''googlenews_rss'' r), w')
             | Inr articles \<Rightarrow>
                 (tool_success ''news_search''
                    [(''query'', JStr query), (''articles'', JList articles),
                     (''provider'', JStr ''googlenews_rss'')]
                    [(''provider'', JStr ''googlenews_rss''),
                     (''status_code'', JInt (status_code r))], w')))"

text \<open>The tail of \<open>NewsTool.call\<close>: GDELT, then the RSS feed; \<open>na\<close> is the error of the
  NewsAPI attempt when one was made.\<close>

definition news_fallback ::
  "'w net \<Rightarrow> string \<Rightarrow> int \<Rightarrow> string option option \<Rightarrow> 'w \<Rightarrow> (string + ToolResult) \<times> 'w" where
  "news_fallback net query top_n na w =
     (case gdelt_search net query top_n w of
        (Inl m, w') \<Rightarrow> (Inl m, w')
      | (Inr gd, w') \<Rightarrow>
          if ok gd then
            (Inr (gd\<lparr>meta :=
                    (case na of
                       None \<Rightarrow> meta gd
                     | Some e \<Rightarrow>
                         meta gd @ [(''fallback_from'', JStr ''newsapi''),
                                    (''newsapi_error'', opt_json e)])\<rparr>), w')
          else
            (case googlenews_rss_search net query top_n w' of
               (rss, w'') \<Rightarrow>
                 (Inr (rss\<lparr>meta :=
                         meta rss @
                         (if ok rss then [(''fallback_from'', JStr ''gdelt'')] else []) @
                         (case na of None \<Rightarrow> [] | Some e \<Rightarrow> [(''newsapi_error'', opt_json e)]) @
                         [(''gdelt_error'', opt_json (error gd))]\<rparr>), w'')))"

definition NewsTool :: "'w net \<Rightarrow> 'w tool" where
  "NewsTool net args w =
     (let query = strip (py_str net (dict_get args ''query'' (JStr ''''))) in
        (case py_int net (dict_get args ''top_n'' (JInt 5)) of
           Inl m \<Rightarrow> (Inl m, w)
         | Inr top_n0 \<Rightarrow>
             if query = [] then (Inr (tool_failure ''news_search'' (''Missing 'query'' @ apostrophe) []), w)
             else
               (let top_n = clamp_top_n top_n0 in
                  if newsapi_key net \<noteq> [] then
                    (case newsapi_search net query top_n w of
                       (Inl m, w') \<Rightarrow> (Inl m, w')
                     | (Inr res, w') \<Rightarrow>
                         if ok res then (Inr res, w')
                         else news_fallback net query top_n (Some (error res)) w')
                  else news_fallback net query top_n None w)))"

subsection \<open>The environment whose capabilities are these tools\<close>

definition with_tools :: "'w net \<Rightarrow> 'w env \<Rightarrow> 'w env" where
  "with_tools net env =
     env\<lparr>GitHubTool_call := GitHubTool net,
         WeatherTool_call := WeatherTool net,
         NewsTool_call := NewsTool net\<rparr>"

text \<open>The invariant of a \<open>ToolResult\<close>: \<open>error\<close> is set exactly when \<open>ok\<close> is false.\<close>

definition error_iff_failed :: "ToolResult \<Rightarrow> bool" where
  "error_iff_failed r = ((error r \<noteq> None) = (\<not> ok r))"

text \<open>Every stored tool result of a state satisfies the invariant.\<close>

definition results_well_formed :: "ExecutionState \<Rightarrow> bool" where
  "results_well_formed s =
     (\<forall>k r. ExecutionState.results s k = Some (Dumped r) \<longrightarrow> error_iff_failed r)"

section \<open>Sample inputs\<close>

text \<open>
  A small environment on which the model is evaluated. The world counts the calls made into
  it: the first tool call succeeds, the second reports a failure, every later one raises.
\<close>

definition sample_tool :: "string \<Rightarrow> nat tool" where
  "sample_tool name args w =
     (if w = 0 then
        (Inr \<lparr>ok = True, tool_name = name, data = args, error = None, meta = []\<rparr>, Suc w)
      else if w = 1 then
        (Inr \<lparr>ok = False, tool_name = name, data = [], error = Some ''upstream failure'',
              meta = []\<rparr>, Suc w)
      else (Inl ''connection reset'', Suc w))"

definition sample_env :: "nat env" where
  "sample_env =
     \<lparr>GitHubTool_call = sample_tool ''github_repo_search'',
      WeatherTool_call = sample_tool ''weather_current'',
      NewsTool_call = sample_tool ''news_search'',
      GroqClient_chat = (\<lambda>msgs max_tokens json_mode w. (Inr '' composed reply '', Suc w)),
      GROQ_API_KEY = Some ''key'',
      json_loads = (\<lambda>s. if s = ''{}'' then Inr (JObj []) else Inl ''Expecting value''),
      coerce_plan = (\<lambda>d. Inl [''objective: Field required'', ''steps: Field required'']),
      coerce_verification = (\<lambda>d. Inl [''status: Field required'']),
      PLANNER_SYSTEM = ''You are PlannerAgent'',
      planner_user_prompt = (\<lambda>t. ''User task: '' @ t),
      VERIFIER_SYSTEM = ''You are VerifierAgent'',
      verifier_user_prompt = (\<lambda>t p r. ''Task: '' @ t),
      str_int = (\<lambda>i. ''n''),
      repr_int_list = (\<lambda>l. ''[..]''),
      repr_dict = (\<lambda>d. ''{..}''),
      dumps_results = (\<lambda>m. ''{..}'')\<rparr>"

definition weather_step :: PlanStep where
  "weather_step =
     \<lparr>PlanStep.id = 1, action = ''Look up the weather'', tool_name = Some ''weather_current'',
      tool_args = [(''city'', JStr ''Paris'')], output_key = ''weather'', depends_on = []\<rparr>"

definition final_step :: PlanStep where
  "final_step =
     \<lparr>PlanStep.id = 2, action = ''Compose the answer'', tool_name = None,
      tool_args = [], output_key = ''final'', depends_on = [1]\<rparr>"

definition unknown_step :: PlanStep where
  "unknown_step =
     \<lparr>PlanStep.id = 1, action = ''Look up the calendar'', tool_name = Some ''calendar_lookup'',
      tool_args = [], output_key = ''calendar'', depends_on = []\<rparr>"

definition sample_plan :: AgentPlan where
  "sample_plan =
     \<lparr>objective = ''Report the weather in Paris'', assumptions = [],
      steps = [weather_step, final_step]\<rparr>"

definition empty_state :: ExecutionState where
  "empty_state =
     \<lparr>task = ''weather in Paris'', plan = sample_plan, results = Map.empty,
      step_status = Map.empty, logs = []\<rparr>"

definition raw_of :: "PlanStep \<Rightarrow> raw_step" where
  "raw_of s =
     \<lparr>raw_id = PlanStep.id s, raw_action = PlanStep.action s,
      raw_tool_name = PlanStep.tool_name s, raw_tool_args = PlanStep.tool_args s,
      raw_output_key = PlanStep.output_key s, raw_depends_on = PlanStep.depends_on s\<rparr>"

definition sample_raw_plan :: raw_plan where
  "sample_raw_plan =
     \<lparr>raw_objective = ''Report the weather in Paris'', raw_assumptions = [],
      raw_steps = [raw_of weather_step, raw_of final_step]\<rparr>"

definition sample_fix :: raw_step where
  "sample_fix =
     \<lparr>raw_id = 1000, raw_action = ''Retry the weather lookup'',
      raw_tool_name = Some ''weather_current'', raw_tool_args = [(''city'', JStr ''Paris'')],
      raw_output_key = ''weather'', raw_depends_on = []\<rparr>"

definition sample_fix_step :: VerifierStep where
  "sample_fix_step =
     \<lparr>VerifierStep.id = 1000, action = ''Retry the weather lookup'',
      tool_name = ''weather_current'', tool_args = [(''city'', JStr ''Paris'')],
      output_key = ''weather'', depends_on = []\<rparr>"

text \<open>The state after the plan ran in a world where the weather lookup reports a failure.\<close>

definition failed_state :: ExecutionState where
  "failed_state =
     fst (snd (ExecutorAgent_run sample_env None ''weather in Paris'' sample_plan 1))"

text \<open>
  A second environment, over transcripts: its tools report a failure without touching the
  transcript, its decoder knows the document \<open>{}\<close>, which coerces to the sample plan and to
  a verification asking for one fix step.
\<close>

definition sample_raw_verification :: raw_verification where
  "sample_raw_verification =
     \<lparr>raw_status = ''needs_fix'', raw_issues = [''weather is missing''],
      raw_fix_steps = [sample_fix], raw_final_output = []\<rparr>"

definition sample_verification :: VerificationResult where
  "sample_verification =
     \<lparr>status = ''needs_fix'', issues = [''weather is missing''],
      fix_steps = [sample_fix_step], final_output = []\<rparr>"

definition failing_tool :: "string \<Rightarrow> transcript tool" where
  "failing_tool name args w =
     (Inr \<lparr>ok = False, tool_name = name, data = [], error = Some ''upstream failure'',
           meta = []\<rparr>, w)"

definition script_env :: "(nat \<Rightarrow> string) \<Rightarrow> transcript env" where
  "script_env replies =
     \<lparr>GitHubTool_call = failing_tool ''github_repo_search'',
      WeatherTool_call = failing_tool ''weather_current'',
      NewsTool_call = failing_tool ''news_search'',
      GroqClient_chat = scripted_chat replies,
      GROQ_API_KEY = Some ''key'',
      json_loads = (\<lambda>s. if s = ''{}'' then Inr (JObj []) else Inl ''Expecting value''),
      coerce_plan = (\<lambda>d. if d = JObj [] then Inr sample_raw_plan
                          else Inl [''objective: Field required'']),
      coerce_verification = (\<lambda>d. if d = JObj [] then Inr sample_raw_verification
                                  else Inl [''status: Field required'']),
      PLANNER_SYSTEM = ''You are PlannerAgent'',
      planner_user_prompt = (\<lambda>t. ''User task: '' @ t),
      VERIFIER_SYSTEM = ''You are VerifierAgent'',
      verifier_user_prompt = (\<lambda>t p r. ''Task: '' @ t),
      str_int = (\<lambda>i. ''n''),
      repr_int_list = (\<lambda>l. ''[..]''),
      repr_dict = (\<lambda>d. ''{..}''),
      dumps_results = (\<lambda>m. ''{..}'')\<rparr>"


definition always_valid :: "nat \<Rightarrow> string" where
  "always_valid n = ''{}''"

definition never_valid :: "nat \<Rightarrow> string" where
  "never_valid n = ''Sure, here is the plan''"

text \<open>
  A network on which every request is answered with status 200 and a body that decodes to
  the empty object; the payloads are empty.
\<close>

definition sample_response :: response where
  "sample_response =
     \<lparr>status_code = 200, body = ''{}'', content_type = ''application/json'',
      final_url = ''https://example.org/''\<rparr>"

definition sample_net :: "nat net" where
  "sample_net =
     \<lparr>requests_get = (\<lambda>url params headers w. (Inr sample_response, Suc w)),
      response_json = (\<lambda>r. Inr (JObj [])),
      OPENWEATHER_API_KEY = None,
      NEWSAPI_KEY = None,
      fmt_int = (\<lambda>i. ''n''),
      repr_json = (\<lambda>v. ''..''),
      int_of_str = (\<lambda>s. Inl ''invalid literal for int()''),
      lower = (\<lambda>s. s),
      github_payload = (\<lambda>q d n r. Inr ([(''query'', JStr q), (''items'', JList [])], [])),
      openweather_payload = (\<lambda>c g j. Inr []),
      open_meteo_payload = (\<lambda>c g j. Inr []),
      newsapi_articles = (\<lambda>d n. Inr []),
      gdelt_articles = (\<lambda>d n. Inr []),
      rss_articles = (\<lambda>b n. Inr [])\<rparr>"

section \<open>Properties of the schemas\<close>

lemma validate_items_Inr:
  "validate_items f xs = ([], ys) \<Longrightarrow> list_all2 (\<lambda>x y. f x = Inr y) xs ys"
proof (induction xs arbitrary: ys)
  case Nil
  then show ?case by simp
next
  case (Cons x xs)
  then show ?case
    by (auto split: prod.splits sum.splits)
qed

lemma validate_items_snd:
  "list_all2 (\<lambda>x y. f x = Inr y) xs (snd (validate_items f xs)) \<or> fst (validate_items f xs) \<noteq> []"
  using validate_items_Inr[of f xs "snd (validate_items f xs)"]
  by (cases "validate_items f xs") auto

lemma PlanStep_validate_Inr:
  "PlanStep_validate r = Inr s \<Longrightarrow>
     1 \<le> PlanStep.id s \<and> PlanStep.id s \<notin> set (PlanStep.depends_on s) \<and>
     PlanStep.action s \<noteq> [] \<and> PlanStep.output_key s \<noteq> [] \<and>
     (\<forall>n. PlanStep.tool_name s = Some n \<longrightarrow> is_ToolName n)"
  by (auto simp: PlanStep_validate_def PlanStep_errors_def depends_on_no_self_def
           split: if_splits option.splits sum.splits)

lemma PlanStep_validate_fields:
  "PlanStep_validate r = Inr s \<Longrightarrow>
     PlanStep.id s = raw_id r \<and> PlanStep.tool_name s = raw_tool_name r \<and>
     PlanStep.output_key s = raw_output_key r \<and> PlanStep.depends_on s = raw_depends_on r"
  by (auto simp: PlanStep_validate_def split: if_splits)

lemma unique_ids_Inr:
  "unique_ids ss = Inr v \<Longrightarrow>
     v = ss \<and> ss \<noteq> [] \<and> distinct (map PlanStep.id ss) \<and>
     PlanStep.output_key (last ss) = ''final'' \<and> PlanStep.tool_name (last ss) = None"
  by (auto simp: unique_ids_def Let_def card_distinct split: if_splits list.splits)

lemma AgentPlan_validate_Inr:
  assumes "AgentPlan_validate r = Inr p"
  shows "steps p \<noteq> [] \<and> distinct (map PlanStep.id (steps p)) \<and>
     PlanStep.output_key (last (steps p)) = ''final'' \<and>
     PlanStep.tool_name (last (steps p)) = None \<and>
     list_all2 (\<lambda>x y. PlanStep_validate x = Inr y) (raw_steps r) (steps p)"
proof -
  obtain errs ss where v: "validate_items PlanStep_validate (raw_steps r) = (errs, ss)"
    by (cases "validate_items PlanStep_validate (raw_steps r)")
  from assms have e: "AgentPlan_errors r = []" and p: "steps p = ss"
    using v by (auto simp: AgentPlan_validate_def split: if_splits)
  from e v have "errs = []" and "\<exists>w. unique_ids ss = Inr w"
    by (auto simp: AgentPlan_errors_def AgentPlan_steps_errors_def split: if_splits sum.splits)
  then show ?thesis using v p validate_items_Inr[of PlanStep_validate "raw_steps r" ss]
    by (auto dest!: unique_ids_Inr)
qed

lemma list_all2_last:
  "list_all2 P xs ys \<Longrightarrow> xs \<noteq> [] \<Longrightarrow> P (last xs) (last ys)"
  by (induction xs ys rule: list_all2_induct) (auto simp: list_all2_Nil)


lemma AgentPlan_validate_rejects:
  "(\<forall>q. AgentPlan_validate r \<noteq> Inr q) \<Longrightarrow>
     \<exists>errs. errs \<noteq> [] \<and> AgentPlan_validate r = Inl (ValidationError errs)"
  by (simp add: AgentPlan_validate_def split: if_splits)


lemma sample_steps_valid:
  "PlanStep_validate (raw_of weather_step) = Inr weather_step"
  "PlanStep_validate (raw_of final_step) = Inr final_step"
  by (simp_all add: PlanStep_validate_def PlanStep_errors_def depends_on_no_self_def raw_of_def
        weather_step_def final_step_def is_ToolName_def ToolName_def)

lemma sample_plan_valid: "AgentPlan_validate sample_raw_plan = Inr sample_plan"
  by (simp add: AgentPlan_validate_def AgentPlan_errors_def AgentPlan_steps_errors_def
        sample_raw_plan_def sample_plan_def sample_steps_valid unique_ids_def Let_def)
    (simp add: weather_step_def final_step_def)

lemma plan_rejected_unless_terminal:
  assumes bad: "raw_steps r = [] \<or> raw_tool_name (last (raw_steps r)) \<noteq> None \<or>
    raw_output_key (last (raw_steps r)) \<noteq> ''final''"
  shows "\<exists>errs. errs \<noteq> [] \<and> AgentPlan_validate r = Inl (ValidationError errs)"
proof -
  have "AgentPlan_validate r \<noteq> Inr q" for q
  proof
    assume ok: "AgentPlan_validate r = Inr q"
    note v = AgentPlan_validate_Inr[OF ok]
    then have l: "list_all2 (\<lambda>x y. PlanStep_validate x = Inr y) (raw_steps r) (steps q)"
      and ne: "steps q \<noteq> []" by simp_all
    from l ne have rne: "raw_steps r \<noteq> []" by auto
    from list_all2_last[OF l rne]
    have "PlanStep_validate (last (raw_steps r)) = Inr (last (steps q))" .
    from PlanStep_validate_fields[OF this] v bad rne show False by simp
  qed
  then show ?thesis
    by (simp add: AgentPlan_validate_rejects)
qed



lemma parse_plan_validated:
  "parse_plan env content = Inr p \<Longrightarrow> \<exists>r. AgentPlan_validate r = Inr p"
  by (auto simp: parse_plan_def AgentPlan_model_validate_def split: sum.splits)

lemma plan_attempts_validated:
  "plan_attempts env n messages last_err w = (Inr p, w1) \<Longrightarrow>
     \<exists>r. AgentPlan_validate r = Inr p"
proof (induction n arbitrary: messages last_err w)
  case 0
  then show ?case by simp
next
  case (Suc n)
  then show ?case
    by (auto split: prod.splits sum.splits dest: parse_plan_validated)
qed

lemma planner_failure_runs_nothing:
  "PlannerAgent_plan env t w = (Inl e, w1) \<Longrightarrow>
     fst (snd (run_task env t N w)) = 0 \<and> (\<exists>e2. fst (run_task env t N w) = Inl e2)"
  by (simp add: run_task_def split: sum.splits)



section \<open>Properties of the Executor\<close>

lemma deps_ok_loop_iff:
  "deps_ok_loop ds state \<longleftrightarrow> (\<forall>d \<in> set ds. step_status state d = Some ''ok'')"
  by (induction ds) auto

lemma deps_ok_iff:
  "deps_ok step state \<longleftrightarrow>
     (\<forall>d \<in> set (PlanStep.depends_on step). step_status state d = Some ''ok'')"
  by (simp add: deps_ok_def deps_ok_loop_iff)

lemma run_step_skipped:
  "\<not> deps_ok step state \<Longrightarrow>
   run_step env llm step state w =
     (None,
      state\<lparr>step_status := (step_status state)(PlanStep.id step \<mapsto> ''skipped''),
            logs := logs state @
              [''Step '' @ str_int env (PlanStep.id step) @
               '' skipped due to failed dependency: '' @
               repr_int_list env (PlanStep.depends_on step)]\<rparr>,
      w)"
  by (simp add: run_step_def)

lemma run_steps_append:
  "run_steps env llm (xs @ ys) state w =
     (case run_steps env llm xs state w of
        (Some e, state', w') \<Rightarrow> (Some e, state', w')
      | (None, state', w') \<Rightarrow> run_steps env llm ys state' w')"
  by (induction xs arbitrary: state w) (auto split: prod.splits option.splits)

lemma registry_keys: "TOOL_REGISTRY env n \<noteq> None \<longleftrightarrow> is_ToolName n"
  by (auto simp: TOOL_REGISTRY_def is_ToolName_def ToolName_def)

lemma unknown_tool_raises:
  assumes "PlanStep.tool_name step = Some name" and "TOOL_REGISTRY env name = None"
    and "deps_ok step state"
  shows "run_steps env llm (step # rest) state w =
           (Some (KeyError (''Unknown tool: '' @ name)), state, w)"
  using assms by (simp add: run_step_def get_tool_def)

lemmas sample_defs =
  sample_env_def sample_tool_def weather_step_def final_step_def unknown_step_def
  sample_plan_def empty_state_def sample_fix_step_def

lemmas executor_defs =
  run_step_def deps_ok_def get_tool_def TOOL_REGISTRY_def call_tool_def compose_text_def
  ToolResult_validate_def failed_result_def is_ToolName_def ToolName_def str_opt_def
  ExecutorAgent_run_def run_fix_steps_def pseudo_step_def PlanStep_validate_def
  PlanStep_errors_def depends_on_no_self_def

text \<open>
  C1, as stated, fails: a step naming a tool that is not registered, with its dependency
  gate open, leaves \<open>_run_steps\<close> by the \<open>KeyError\<close> of \<open>get_tool\<close>. No status is
  recorded for the step and nothing is stored under its output key.
\<close>

theorem unknown_tool_aborts_the_batch:
  "fst (run_steps sample_env None [unknown_step, final_step] empty_state 0) =
     Some (KeyError ''Unknown tool: calendar_lookup'') \<and>
   step_status (fst (snd (run_steps sample_env None [unknown_step, final_step] empty_state 0))) 1
     = None \<and>
   results (fst (snd (run_steps sample_env None [unknown_step, final_step] empty_state 0)))
     ''calendar'' = None"
  by (simp add: executor_defs sample_defs)

text \<open>
  C1, amended. The lookup \<open>get_tool\<close> stands before the \<open>try\<close> block. A step whose tool name
  is not registered and whose dependencies are all "ok" ends the batch with
  \<open>KeyError('Unknown tool: ...')\<close>: the state and the world are as they were when the step was
  reached, and the steps after it do not run. With a closed dependency gate the step is
  skipped before any lookup. Schema validation admits no such step: every tool name of a
  validated step is a key of the registry.
\<close>

theorem unknown_tool_is_a_key_error:
  "(PlanStep.tool_name step = Some name \<and> TOOL_REGISTRY env name = None \<and>
    deps_ok step state \<longrightarrow>
      run_steps env llm (step # rest) state w =
        (Some (KeyError (''Unknown tool: '' @ name)), state, w)) \<and>
   (PlanStep.tool_name step = Some name \<and> TOOL_REGISTRY env name = None \<and>
    \<not> deps_ok step state \<longrightarrow>
      fst (run_step env llm step state w) = None \<and>
      step_status (fst (snd (run_step env llm step state w))) (PlanStep.id step)
        = Some ''skipped'') \<and>
   (PlanStep_validate r = Inr s \<and> PlanStep.tool_name s = Some n \<longrightarrow>
      TOOL_REGISTRY env n \<noteq> None)"
  using unknown_tool_raises[of step name env state llm rest w]
    run_step_skipped[of step state env llm w]
    PlanStep_validate_Inr[of r s] registry_keys[of env n]
  by simp

theorem unknown_tool_is_a_key_error_witness:
  "PlanStep.tool_name unknown_step = Some ''calendar_lookup'' \<and>
   TOOL_REGISTRY sample_env ''calendar_lookup'' = None \<and>
   deps_ok unknown_step empty_state \<and>
   run_steps sample_env None (unknown_step # [final_step]) empty_state 0 =
     (Some (KeyError (''Unknown tool: '' @ ''calendar_lookup'')), empty_state, 0) \<and>
   PlanStep_validate (raw_of weather_step) = Inr weather_step \<and>
   PlanStep.tool_name weather_step = Some ''weather_current'' \<and>
   TOOL_REGISTRY sample_env ''weather_current'' \<noteq> None"
  using unknown_tool_is_a_key_error[of unknown_step "''calendar_lookup''" sample_env
          empty_state None "[final_step]" 0 "raw_of weather_step" weather_step
          "''weather_current''"]
    sample_steps_valid
  by (simp add: TOOL_REGISTRY_def deps_ok_def unknown_step_def weather_step_def)

lemma run_step_status_other:
  "run_step env llm s state w = (x1, s1, w1) \<Longrightarrow> k \<noteq> PlanStep.id s \<Longrightarrow>
     step_status s1 k = step_status state k"
  by (auto simp: run_step_def Let_def split: if_splits option.splits sum.splits prod.splits)

lemma run_step_status_raised:
  "run_step env llm s state w = (Some e, s1, w1) \<Longrightarrow> step_status s1 = step_status state"
  by (auto simp: run_step_def Let_def split: if_splits option.splits sum.splits prod.splits)

lemma run_step_status_set:
  "run_step env llm s state w = (None, s1, w1) \<Longrightarrow>
     step_status s1 (PlanStep.id s) \<noteq> None \<and>
     (\<not> deps_ok s state \<longrightarrow> step_status s1 (PlanStep.id s) = Some ''skipped'')"
  by (auto simp: run_step_def Let_def split: if_splits option.splits sum.splits prod.splits)

lemma batch_skip_propagation:
  assumes "run_steps env llm ss state w = (x, state', w')"
    and "distinct (map PlanStep.id ss)"
    and "\<forall>s \<in> set ss. step_status state (PlanStep.id s) = None"
  shows "(\<forall>k. step_status state k \<noteq> None \<longrightarrow> step_status state' k = step_status state k) \<and>
         (\<forall>a \<in> set ss. \<forall>d \<in> set (PlanStep.depends_on a).
            step_status state' d \<noteq> Some ''ok'' \<longrightarrow>
              step_status state' (PlanStep.id a) \<noteq> Some ''ok'' \<and>
              (x = None \<longrightarrow> step_status state' (PlanStep.id a) = Some ''skipped''))"
  using assms
proof (induction ss arbitrary: state w)
  case Nil
  then show ?case by simp
next
  case (Cons s ss)
  obtain x1 s1 w1 where r: "run_step env llm s state w = (x1, s1, w1)"
    by (cases "run_step env llm s state w")
  have other: "step_status s1 k = step_status state k" if "k \<noteq> PlanStep.id s" for k
    using run_step_status_other[OF r that] .
  have fresh_s: "step_status state (PlanStep.id s) = None" using Cons.prems(3) by simp
  show ?case
  proof (cases x1)
    case (Some e)
    with Cons.prems(1) r have st: "state' = s1" and x: "x = Some e" by simp_all
    from r Some have same: "step_status s1 = step_status state"
      by (simp add: run_step_status_raised)
    from st same x Cons.prems(3) show ?thesis by simp
  next
    case None
    with Cons.prems(1) r have rest: "run_steps env llm ss s1 w1 = (x, state', w')" by simp
    have d: "distinct (map PlanStep.id ss)" using Cons.prems(2) by simp
    have f: "\<forall>a \<in> set ss. step_status s1 (PlanStep.id a) = None"
    proof
      fix a assume a: "a \<in> set ss"
      then have "PlanStep.id a \<noteq> PlanStep.id s" using Cons.prems(2) by (metis distinct.simps(2) image_eqI list.simps(9) set_map)
      with other Cons.prems(3) a show "step_status s1 (PlanStep.id a) = None" by simp
    qed
    note IH = Cons.IH[OF rest d f]
    from r None have r0: "run_step env llm s state w = (None, s1, w1)" by simp
    have set_s: "step_status s1 (PlanStep.id s) \<noteq> None"
      using run_step_status_set[OF r0] by simp
    have gate: "step_status s1 (PlanStep.id s) = Some ''skipped''" if "\<not> deps_ok s state"
      using run_step_status_set[OF r0] that by simp
    have keep: "step_status state' k = step_status state k" if "step_status state k \<noteq> None" for k
    proof -
      from that fresh_s have "k \<noteq> PlanStep.id s" by auto
      with other that have "step_status s1 k = step_status state k" "step_status s1 k \<noteq> None"
        by simp_all
      with IH show ?thesis by simp
    qed
    have head: "step_status state' (PlanStep.id s) \<noteq> Some ''ok'' \<and>
              (x = None \<longrightarrow> step_status state' (PlanStep.id s) = Some ''skipped'')"
      if dep: "d \<in> set (PlanStep.depends_on s)" and bad: "step_status state' d \<noteq> Some ''ok''" for d
    proof -
      have "step_status state d \<noteq> Some ''ok''"
      proof
        assume "step_status state d = Some ''ok''"
        with keep[of d] bad show False by simp
      qed
      with dep have "\<not> deps_ok s state" by (auto simp: deps_ok_iff)
      from gate[OF this] have "step_status s1 (PlanStep.id s) = Some ''skipped''" .
      with IH show ?thesis by simp
    qed
    from keep head IH show ?thesis by auto
  qed
qed

text \<open>
  C3. The dependency gate. A step passes the gate exactly when every identifier it depends on
  has status "ok" in the state at the moment the step is reached. When a batch reaches a step
  \<open>a\<close> (the steps before it ran without an exception) and some dependency \<open>b\<close> of \<open>a\<close> is not
  "ok" there (it is "skipped", "failed" or has no status), the batch up to and including \<open>a\<close>
  ends in the state where \<open>a\<close> is "skipped": only the status of \<open>a\<close> and the log change, the
  results are as before, the world is untouched (neither the tool nor the model is called),
  whatever the tools of the environment do, and the step never counts as "ok".

  For the batch of a validated plan, run by \<open>ExecutorAgent.run\<close> from the empty state, the same
  holds of the statuses the batch ends with: a step \<open>a\<close> with a dependency \<open>b\<close> that ends the
  batch other than "ok" does not end it "ok", and ends it "skipped" when the batch ran to its
  end without an exception.
\<close>

theorem dependency_gate_skips:
  "(run_steps env llm pre state w = (None, s1, w1) \<and> b \<in> set (PlanStep.depends_on a) \<and>
    step_status s1 b \<noteq> Some ''ok'' \<longrightarrow>
      deps_ok a s1 = (\<forall>d \<in> set (PlanStep.depends_on a). step_status s1 d = Some ''ok'') \<and>
      run_steps env llm (pre @ [a]) state w =
        (None,
         s1\<lparr>step_status := (step_status s1)(PlanStep.id a \<mapsto> ''skipped''),
            logs := logs s1 @
              [''Step '' @ str_int env (PlanStep.id a) @
               '' skipped due to failed dependency: '' @
               repr_int_list env (PlanStep.depends_on a)]\<rparr>,
         w1) \<and>
      step_status (fst (snd (run_steps env llm (pre @ [a]) state w))) (PlanStep.id a)
        = Some ''skipped'' \<and>
      results (fst (snd (run_steps env llm (pre @ [a]) state w))) = results s1) \<and>
   (AgentPlan_validate r = Inr p \<and> ExecutorAgent_run env llm t p w = (x, fin, w2) \<and>
    a \<in> set (steps p) \<and> b \<in> set (PlanStep.depends_on a) \<and>
    step_status fin b \<noteq> Some ''ok'' \<longrightarrow>
      step_status fin (PlanStep.id a) \<noteq> Some ''ok'' \<and>
      (x = None \<longrightarrow> step_status fin (PlanStep.id a) = Some ''skipped''))"
proof -
  have gate:
    "deps_ok a s1 = (\<forall>d \<in> set (PlanStep.depends_on a). step_status s1 d = Some ''ok'') \<and>
     run_steps env llm (pre @ [a]) state w =
       (None,
        s1\<lparr>step_status := (step_status s1)(PlanStep.id a \<mapsto> ''skipped''),
           logs := logs s1 @
             [''Step '' @ str_int env (PlanStep.id a) @
              '' skipped due to failed dependency: '' @
              repr_int_list env (PlanStep.depends_on a)]\<rparr>,
        w1) \<and>
     step_status (fst (snd (run_steps env llm (pre @ [a]) state w))) (PlanStep.id a)
       = Some ''skipped'' \<and>
     results (fst (snd (run_steps env llm (pre @ [a]) state w))) = results s1"
    if reach: "run_steps env llm pre state w = (None, s1, w1)"
      and dep: "b \<in> set (PlanStep.depends_on a)" and bad: "step_status s1 b \<noteq> Some ''ok''"
  proof -
    from dep bad have "\<not> deps_ok a s1"
      by (auto simp: deps_ok_iff)
    from run_step_skipped[OF this, of env llm w1] reach
    show ?thesis
      by (simp add: run_steps_append deps_ok_iff)
  qed
  have batch:
    "step_status fin (PlanStep.id a) \<noteq> Some ''ok'' \<and>
     (x = None \<longrightarrow> step_status fin (PlanStep.id a) = Some ''skipped'')"
    if valid: "AgentPlan_validate r = Inr p"
      and run: "ExecutorAgent_run env llm t p w = (x, fin, w2)"
      and a: "a \<in> set (steps p)" and dep: "b \<in> set (PlanStep.depends_on a)"
      and bad: "step_status fin b \<noteq> Some ''ok''"
  proof -
    from AgentPlan_validate_Inr[OF valid] have d: "distinct (map PlanStep.id (steps p))"
      by simp
    from run have
      "run_steps env llm (steps p)
         \<lparr>task = t, plan = p, results = Map.empty, step_status = Map.empty, logs = []\<rparr> w =
       (x, fin, w2)"
      by (simp add: ExecutorAgent_run_def)
    from batch_skip_propagation[OF this d] a dep bad
    show ?thesis by fastforce
  qed
  from gate batch show ?thesis by blast
qed

lemma sample_failed_weather:
  "fst (run_steps sample_env None [weather_step] empty_state 1) = None"
  "snd (snd (run_steps sample_env None [weather_step] empty_state 1)) = 2"
  "step_status (fst (snd (run_steps sample_env None [weather_step] empty_state 1))) 1
     = Some ''failed''"
  by (simp_all add: executor_defs sample_defs)

lemma sample_failed_plan:
  "fst (ExecutorAgent_run sample_env None ''weather in Paris'' sample_plan 1) = None"
  "step_status (fst (snd (ExecutorAgent_run sample_env None ''weather in Paris''
       sample_plan 1))) 1 = Some ''failed''"
  by (simp_all add: executor_defs sample_defs)

theorem dependency_gate_skips_witness:
  "1 \<in> set (PlanStep.depends_on final_step) \<and>
   step_status (fst (snd (run_steps sample_env None [weather_step] empty_state 1))) 1
     = Some ''failed'' \<and>
   fst (run_steps sample_env None ([weather_step] @ [final_step]) empty_state 1) = None \<and>
   snd (snd (run_steps sample_env None ([weather_step] @ [final_step]) empty_state 1)) = 2 \<and>
   step_status (fst (snd (run_steps sample_env None ([weather_step] @ [final_step])
       empty_state 1))) (PlanStep.id final_step) = Some ''skipped'' \<and>
   results (fst (snd (run_steps sample_env None ([weather_step] @ [final_step])
       empty_state 1))) ''final'' = None \<and>
   AgentPlan_validate sample_raw_plan = Inr sample_plan \<and>
   final_step \<in> set (steps sample_plan) \<and>
   fst (ExecutorAgent_run sample_env None ''weather in Paris'' sample_plan 1) = None \<and>
   step_status (fst (snd (ExecutorAgent_run sample_env None ''weather in Paris''
       sample_plan 1))) 1 = Some ''failed'' \<and>
   step_status (fst (snd (ExecutorAgent_run sample_env None ''weather in Paris''
       sample_plan 1))) (PlanStep.id final_step) = Some ''skipped''"
proof -
  let ?r = "run_steps sample_env None [weather_step] empty_state 1"
  let ?e = "ExecutorAgent_run sample_env None ''weather in Paris'' sample_plan 1"
  have reach: "?r = (None, fst (snd ?r), 2)"
    using sample_failed_weather(1,2) by (metis prod.collapse)
  have dep: "1 \<in> set (PlanStep.depends_on final_step)"
    by (simp add: final_step_def)
  have notok: "step_status (fst (snd ?r)) 1 \<noteq> Some ''ok''"
    by (simp only: sample_failed_weather(3)) simp
  have res: "results (fst (snd ?r)) ''final'' = None"
    by (simp add: executor_defs sample_defs)
  have run: "?e = (None, fst (snd ?e), snd (snd ?e))"
    using sample_failed_plan(1) by (metis prod.collapse)
  have mem: "final_step \<in> set (steps sample_plan)"
    by (simp add: sample_plan_def)
  have notok2: "step_status (fst (snd ?e)) 1 \<noteq> Some ''ok''"
    by (simp only: sample_failed_plan(2)) simp
  from dependency_gate_skips[of sample_env None "[weather_step]" empty_state 1
      "fst (snd ?r)" 2 1 final_step sample_raw_plan sample_plan "''weather in Paris''"
      None "fst (snd ?e)" "snd (snd ?e)"]
    reach dep notok res run mem notok2 sample_plan_valid sample_failed_weather(3)
    sample_failed_plan
  show ?thesis by simp
qed

lemma run_step_frame:
  assumes "run_step env llm step state w = (x, state', w')"
  shows "dom (results state) \<subseteq> dom (results state') \<and>
         dom (step_status state) \<subseteq> dom (step_status state') \<and>
         prefix (logs state) (logs state') \<and>
         task state' = task state \<and> plan state' = plan state"
  using assms
  by (auto simp: run_step_def Let_def split: if_splits option.splits sum.splits prod.splits)

lemma run_steps_frame:
  assumes "run_steps env llm ss state w = (x, state', w')"
  shows "dom (results state) \<subseteq> dom (results state') \<and>
         dom (step_status state) \<subseteq> dom (step_status state') \<and>
         prefix (logs state) (logs state') \<and>
         task state' = task state \<and> plan state' = plan state"
  using assms
proof (induction ss arbitrary: state w)
  case Nil
  then show ?case by simp
next
  case (Cons s ss)
  obtain x1 s1 w1 where r: "run_step env llm s state w = (x1, s1, w1)"
    by (cases "run_step env llm s state w")
  note f = run_step_frame[OF r]
  show ?case
  proof (cases x1)
    case None
    with Cons.prems r have "run_steps env llm ss s1 w1 = (x, state', w')" by simp
    from Cons.IH[OF this] f show ?thesis
      by (metis subset_trans prefix_order.trans)
  next
    case (Some e)
    with Cons.prems r have "state' = s1" by simp
    with f show ?thesis by simp
  qed
qed

text \<open>
  C9. A batch of the Executor, whether the plan's steps or fix steps, and whether it ends
  normally or by an exception, only adds to the state: every key of the results and every
  identifier of the step statuses is still there afterwards (its value may have been
  overwritten), the old log is a prefix of the new one, and the task and the plan are the
  same.
\<close>

theorem executor_batches_are_additive:
  assumes "run_steps env llm ss state w = (x, state', w') \<or>
           run_fix_steps env llm state fixes w = (x, state', w')"
  shows "dom (results state) \<subseteq> dom (results state') \<and>
         dom (step_status state) \<subseteq> dom (step_status state') \<and>
         prefix (logs state) (logs state') \<and>
         task state' = task state \<and> plan state' = plan state"
proof -
  from assms consider
      (batch) "run_steps env llm ss state w = (x, state', w')"
    | (rejected) "state' = state"
    | (repaired) ps where "run_steps env llm ps state w = (x, state', w')"
    by (auto simp: run_fix_steps_def split: sum.splits)
  then show ?thesis
  proof cases
    case batch
    then show ?thesis by (rule run_steps_frame)
  next
    case rejected
    then show ?thesis by simp
  next
    case repaired
    then show ?thesis by (rule run_steps_frame)
  qed
qed

lemma failed_state_eval:
  "results failed_state ''weather'' \<noteq> None"
  "step_status failed_state 1 = Some ''failed''"
  "step_status failed_state 2 = Some ''skipped''"
  "length (logs failed_state) = 3"
  by (simp_all add: failed_state_def executor_defs sample_defs)

theorem executor_batches_are_additive_witness:
  "fst (run_fix_steps sample_env None failed_state [sample_fix_step] 2) = None \<and>
   ''weather'' \<in> dom (results failed_state) \<and>
   dom (results failed_state) \<subseteq>
     dom (results (fst (snd (run_fix_steps sample_env None failed_state [sample_fix_step] 2)))) \<and>
   dom (step_status failed_state) \<subseteq>
     dom (step_status
       (fst (snd (run_fix_steps sample_env None failed_state [sample_fix_step] 2)))) \<and>
   prefix (logs failed_state)
     (logs (fst (snd (run_fix_steps sample_env None failed_state [sample_fix_step] 2)))) \<and>
   step_status (fst (snd (run_fix_steps sample_env None failed_state [sample_fix_step] 2))) 1000
     = Some ''failed''"
proof -
  let ?r = "run_fix_steps sample_env None failed_state [sample_fix_step] 2"
  have "run_steps sample_env None [] failed_state 2 = (fst ?r, fst (snd ?r), snd (snd ?r)) \<or>
        ?r = (fst ?r, fst (snd ?r), snd (snd ?r))"
    by simp
  from executor_batches_are_additive[OF this] failed_state_eval(1)
  show ?thesis
    by (auto simp: executor_defs sample_defs)
qed

text \<open>
  C10. A fix step that validation accepts has an identifier of at least 1000 and a tool name
  that is one of the three \<open>ToolName\<close> literals, each a key of the registry; input with a
  smaller identifier or with a null tool name is rejected. The \<open>PlanStep\<close> that
  \<open>run_fix_steps\<close> builds from a fix step therefore always names a tool, although a
  \<open>PlanStep\<close> without a tool name is valid.
\<close>

theorem fix_steps_name_a_registered_tool:
  "(VerifierStep_validate r = Inr fs \<longrightarrow>
      1000 \<le> VerifierStep.id fs \<and> is_ToolName (VerifierStep.tool_name fs) \<and>
      raw_tool_name r = Some (VerifierStep.tool_name fs) \<and>
      TOOL_REGISTRY env (VerifierStep.tool_name fs) \<noteq> None) \<and>
   (raw_tool_name r = None \<or> raw_id r < 1000 \<longrightarrow> (\<exists>e. VerifierStep_validate r = Inl e)) \<and>
   (VerificationResult_validate rv = Inr v \<longrightarrow>
      (\<forall>f \<in> set (fix_steps v).
         1000 \<le> VerifierStep.id f \<and> is_ToolName (VerifierStep.tool_name f))) \<and>
   (pseudo_step fs = Inr s \<longrightarrow> PlanStep.tool_name s = Some (VerifierStep.tool_name fs)) \<and>
   (\<exists>r' s'. PlanStep_validate r' = Inr s' \<and> PlanStep.tool_name s' = None)"
proof -
  have a: "VerifierStep_validate q = Inr f \<Longrightarrow>
      1000 \<le> VerifierStep.id f \<and> is_ToolName (VerifierStep.tool_name f) \<and>
      raw_tool_name q = Some (VerifierStep.tool_name f)" for q f
    by (auto simp: VerifierStep_validate_def VerifierStep_errors_def
          split: if_splits option.splits)
  have b: "raw_tool_name r = None \<or> raw_id r < 1000 \<Longrightarrow> \<exists>e. VerifierStep_validate r = Inl e"
    by (auto simp: VerifierStep_validate_def VerifierStep_errors_def split: option.splits)
  have c: "\<forall>f \<in> set (fix_steps v).
         1000 \<le> VerifierStep.id f \<and> is_ToolName (VerifierStep.tool_name f)"
    if ok: "VerificationResult_validate rv = Inr v"
  proof -
    from ok have e: "fst (validate_items VerifierStep_validate (raw_fix_steps rv)) = []"
      and f: "fix_steps v = snd (validate_items VerifierStep_validate (raw_fix_steps rv))"
      by (auto simp: VerificationResult_validate_def VerificationResult_errors_def
            split: if_splits)
    from validate_items_snd[of VerifierStep_validate "raw_fix_steps rv"] e f
    have "list_all2 (\<lambda>x y. VerifierStep_validate x = Inr y) (raw_fix_steps rv) (fix_steps v)"
      by simp
    then show ?thesis
      by (auto simp: in_set_conv_nth list_all2_conv_all_nth dest!: a)
  qed
  have d: "pseudo_step fs = Inr s \<Longrightarrow> PlanStep.tool_name s = Some (VerifierStep.tool_name fs)"
    by (auto simp: pseudo_step_def dest: PlanStep_validate_fields)
  have e: "\<exists>r' s'. PlanStep_validate r' = Inr s' \<and> PlanStep.tool_name s' = None"
    using sample_steps_valid(2) by (intro exI[of _ "raw_of final_step"] exI[of _ final_step])
      (simp add: final_step_def)
  from a[of r fs] b c d e registry_keys[of env "VerifierStep.tool_name fs"]
  show ?thesis by blast
qed

theorem fix_steps_name_a_registered_tool_witness:
  "VerifierStep_validate sample_fix = Inr sample_fix_step \<and>
   1000 \<le> VerifierStep.id sample_fix_step \<and>
   is_ToolName (VerifierStep.tool_name sample_fix_step) \<and>
   TOOL_REGISTRY sample_env (VerifierStep.tool_name sample_fix_step) \<noteq> None \<and>
   raw_tool_name (sample_fix\<lparr>raw_tool_name := None\<rparr>) = None \<and>
   (\<exists>e. VerifierStep_validate (sample_fix\<lparr>raw_tool_name := None\<rparr>) = Inl e) \<and>
   pseudo_step sample_fix_step = Inr (weather_step\<lparr>PlanStep.id := 1000,
       action := ''Retry the weather lookup''\<rparr>) \<and>
   PlanStep.tool_name (weather_step\<lparr>PlanStep.id := 1000,
       action := ''Retry the weather lookup''\<rparr>) = Some ''weather_current''"
proof -
  have v: "VerifierStep_validate sample_fix = Inr sample_fix_step"
    by (simp add: VerifierStep_validate_def VerifierStep_errors_def sample_fix_def
          sample_fix_step_def is_ToolName_def ToolName_def)
  have p: "pseudo_step sample_fix_step = Inr (weather_step\<lparr>PlanStep.id := 1000,
       action := ''Retry the weather lookup''\<rparr>)"
    by (simp add: executor_defs sample_defs)
  from fix_steps_name_a_registered_tool[where r = sample_fix and fs = sample_fix_step
      and env = sample_env and s = "weather_step\<lparr>PlanStep.id := 1000,
       action := ''Retry the weather lookup''\<rparr>"]
    fix_steps_name_a_registered_tool[where r = "sample_fix\<lparr>raw_tool_name := None\<rparr>"]
    v p
  show ?thesis
    by (simp add: sample_fix_step_def weather_step_def)
qed

section \<open>Properties of the reply parser\<close>








lemmas parse_defs =
  safe_json_loads_def strip_def isspace_def upto_last_def span_starts_at_def closer_def




section \<open>Properties of the schema-repair loop\<close>






section \<open>Properties of the orchestrator\<close>

lemma fix_loop_bounded:
  assumes "fix_loop env t p N state v rounds b w = (x, state', v', rounds', b', w')"
    and "rounds \<le> N" and "int b \<le> rounds"
  shows "int b' \<le> N \<and> rounds' \<le> N"
  using assms
proof (induction env t p N state v rounds b w rule: fix_loop.induct)
  case (1 env t p max_rounds state v rounds batches w)
  show ?case
  proof (cases "status v = ''needs_fix'' \<and> fix_steps v \<noteq> [] \<and> rounds < max_rounds")
    case False
    with "1.prems" show ?thesis
      by (simp add: fix_loop.simps[of env t p max_rounds state v rounds batches w])
  next
    case enter: True
    obtain x1 s1 w1 where
      r: "run_fix_steps env (Some (GroqClient_chat env)) state (fix_steps v) w = (x1, s1, w1)"
      by (cases "run_fix_steps env (Some (GroqClient_chat env)) state (fix_steps v) w")
    show ?thesis
    proof (cases x1)
      case (Some e)
      with "1.prems" enter r show ?thesis
        by (simp add: fix_loop.simps[of env t p max_rounds state v rounds batches w])
    next
      case None
      obtain y w2 where
        vr: "VerifierAgent_verify env t p (ExecutionState.results s1) w1 = (y, w2)"
        by (cases "VerifierAgent_verify env t p (ExecutionState.results s1) w1")
      show ?thesis
      proof (cases y)
        case (Inl e)
        with "1.prems" enter r None vr show ?thesis
          by (simp add: fix_loop.simps[of env t p max_rounds state v rounds batches w])
      next
        case (Inr v2)
        with "1.prems"(1) enter r None vr have
          "fix_loop env t p max_rounds s1 v2 (rounds + 1) (Suc batches) w2 =
             (x, state', v', rounds', b', w')"
          by (simp add: fix_loop.simps[of env t p max_rounds state v rounds batches w])
        moreover have "rounds + 1 \<le> max_rounds" "int (Suc batches) \<le> rounds + 1"
          using enter "1.prems"(3) by simp_all
        ultimately show ?thesis
          using "1.IH"[OF enter r[symmetric] None refl vr[symmetric] Inr] by blast
      qed
    qed
  qed
qed


lemma fix_loop_budget_spent:
  "max_rounds \<le> rounds \<Longrightarrow>
     fix_loop env t p max_rounds state v rounds b w = (None, state, v, rounds, b, w)"
  by (simp add: fix_loop.simps[of env t p max_rounds state v rounds b w])

lemma fix_loop_step:
  assumes "status v = ''needs_fix''" and "fix_steps v \<noteq> []" and "rounds < max_rounds"
    and "run_fix_steps env (Some (GroqClient_chat env)) state (fix_steps v) w = (None, s1, w1)"
    and "VerifierAgent_verify env t p (ExecutionState.results s1) w1 = (Inr v', w2)"
  shows "fix_loop env t p max_rounds state v rounds b w =
           fix_loop env t p max_rounds s1 v' (rounds + 1) (Suc b) w2"
  using assms by (simp add: fix_loop.simps[of env t p max_rounds state v rounds b w])

text \<open>
  C2. \<open>run_task\<close> is a total function (the loop's recursion is well-founded on
  \<open>max_rounds - rounds\<close>), whatever the model and the tools answer. For \<open>max_rounds = N\<close> with
  \<open>1 \<le> N\<close> (in particular for the admitted range 1..5) the number of batches handed to the
  Executor, counting the plan's own batch and batches that end by an exception, is at most
  \<open>N\<close>. For \<open>N = 1\<close>, once the plan was executed and verified, the run ends at once: the
  response carries that verification, whatever its status and fix steps, and the state of the
  first batch; the batch count is 1 and the world is the one the first verification left.
\<close>

theorem round_loop_terminates_within_budget:
  "(1 \<le> N \<longrightarrow> int (fst (snd (run_task env t N w))) \<le> N) \<and>
   (build_agents env = Inr llm \<and> PlannerAgent_plan env t w = (Inr p, w1) \<and>
    ExecutorAgent_run env (Some llm) t p w1 = (None, state, w2) \<and>
    VerifierAgent_verify env t p (ExecutionState.results state) w2 = (Inr v, w3) \<longrightarrow>
      run_task env t 1 w =
        (Inr \<lparr>RunResponse.task = t, plan = p, results = ExecutionState.results state,
              verification = v, final_output = VerificationResult.final_output v,
              logs = ExecutionState.logs state\<rparr>,
         1, w3))"
proof -
  have loop: "int b' \<le> N"
    if "1 \<le> N" and "fix_loop env t q N s u 1 1 w0 = (x, s', u', r', b', w')"
    for q s u w0 x s' u' r' b' w'
    using fix_loop_bounded[OF that(2)] that(1) by simp
  have a: "int (fst (snd (run_task env t N w))) \<le> N" if "1 \<le> N"
    using that loop[OF that]
    by (auto simp: run_task_def split: sum.splits prod.splits option.splits)
  have b: "run_task env t 1 w =
        (Inr \<lparr>RunResponse.task = t, plan = p, results = ExecutionState.results state,
              verification = v, final_output = VerificationResult.final_output v,
              logs = ExecutionState.logs state\<rparr>,
         1, w3)"
    if "build_agents env = Inr llm" "PlannerAgent_plan env t w = (Inr p, w1)"
      "ExecutorAgent_run env (Some llm) t p w1 = (None, state, w2)"
      "VerifierAgent_verify env t p (ExecutionState.results state) w2 = (Inr v, w3)"
    using that by (simp add: run_task_def fix_loop_budget_spent)
  from a b show ?thesis by blast
qed

lemma script_parse:
  "parse_plan (script_env r) ''{}'' = Inr sample_plan"
  "parse_verification (script_env r) ''{}'' = Inr sample_verification"
  by (simp_all add: parse_plan_def parse_verification_def parse_defs script_env_def
        AgentPlan_model_validate_def sample_plan_valid VerificationResult_model_validate_def
        VerificationResult_validate_def VerificationResult_errors_def
        sample_raw_verification_def sample_verification_def VerifierStep_validate_def
        VerifierStep_errors_def sample_fix_def sample_fix_step_def is_ToolName_def ToolName_def)

lemma script_planner:
  "PlannerAgent_plan (script_env always_valid) t (k, sent) =
     (Inr sample_plan,
      (Suc k, sent @ [[(''system'', ''You are PlannerAgent''), (''user'', ''User task: '' @ t)]]))"
  using script_parse(1)[of always_valid]
  by (simp add: PlannerAgent_plan_def numeral_3_eq_3 always_valid_def)
    (simp add: script_env_def scripted_chat_def always_valid_def)

lemma script_verifier:
  "VerifierAgent_verify (script_env always_valid) t p res (k, sent) =
     (Inr sample_verification,
      (Suc k, sent @ [[(''system'', ''You are VerifierAgent''), (''user'', ''Task: '' @ t)]]))"
  using script_parse(2)[of always_valid]
  by (simp add: VerifierAgent_verify_def numeral_3_eq_3 always_valid_def)
    (simp add: script_env_def scripted_chat_def always_valid_def)

lemma script_executor:
  "fst (ExecutorAgent_run (script_env always_valid) llm t sample_plan w) = None"
  "snd (snd (ExecutorAgent_run (script_env always_valid) llm t sample_plan w)) = w"
  by (simp_all add: executor_defs sample_defs script_env_def failing_tool_def)

lemma script_fix_batch:
  "fst (run_fix_steps (script_env always_valid) llm s [sample_fix_step] w) = None"
  "snd (snd (run_fix_steps (script_env always_valid) llm s [sample_fix_step] w)) = w"
  by (simp_all add: executor_defs sample_defs script_env_def failing_tool_def)

theorem round_loop_terminates_within_budget_witness:
  "int (fst (snd (run_task (script_env always_valid) ''weather in Paris'' 2 (0, [])))) \<le> 2 \<and>
   fst (snd (run_task (script_env always_valid) ''weather in Paris'' 2 (0, []))) = 2 \<and>
   fst (snd (run_task (script_env always_valid) ''weather in Paris'' 1 (0, []))) = 1 \<and>
   map_sum (\<lambda>e. e) RunResponse.verification
     (fst (run_task (script_env always_valid) ''weather in Paris'' 1 (0, []))) =
     Inr sample_verification \<and>
   status sample_verification = ''needs_fix'' \<and>
   fix_steps sample_verification = [sample_fix_step] \<and>
   fst (snd (snd (run_task (script_env always_valid) ''weather in Paris'' 1 (0, [])))) = 2"
proof -
  let ?E = "script_env always_valid"
  let ?T = "''weather in Paris''"
  let ?llm = "GroqClient_chat ?E"
  let ?P = "[(''system'', ''You are PlannerAgent''), (''user'', ''User task: '' @ ?T)]"
  let ?V = "[(''system'', ''You are VerifierAgent''), (''user'', ''Task: '' @ ?T)]"
  let ?w1 = "(Suc 0, [?P])"
  let ?w2 = "(Suc (Suc 0), [?P, ?V])"
  let ?w3 = "(Suc (Suc (Suc 0)), [?P, ?V, ?V])"
  have sv: "status sample_verification = ''needs_fix''"
    "fix_steps sample_verification = [sample_fix_step]"
    by (simp_all add: sample_verification_def)
  have ag: "build_agents ?E = Inr ?llm"
    by (simp add: build_agents_def script_env_def)
  have pl: "PlannerAgent_plan ?E ?T (0, []) = (Inr sample_plan, ?w1)"
    using script_planner[of ?T 0 "[]"] by simp
  obtain st where ex: "ExecutorAgent_run ?E (Some ?llm) ?T sample_plan ?w1 = (None, st, ?w1)"
    using script_executor[of "Some ?llm" ?T ?w1] by (metis prod.collapse)
  have ve: "VerifierAgent_verify ?E ?T sample_plan (ExecutionState.results st) ?w1 =
      (Inr sample_verification, ?w2)"
    using script_verifier[of ?T sample_plan "ExecutionState.results st" "Suc 0" "[?P]"]
    by simp
  obtain st2 where fx:
    "run_fix_steps ?E (Some ?llm) st (fix_steps sample_verification) ?w2 = (None, st2, ?w2)"
    using script_fix_batch[of "Some ?llm" st ?w2] sv(2) by (metis prod.collapse)
  have ve2: "VerifierAgent_verify ?E ?T sample_plan (ExecutionState.results st2) ?w2 =
      (Inr sample_verification, ?w3)"
    using script_verifier[of ?T sample_plan "ExecutionState.results st2" "Suc (Suc 0)"
        "[?P, ?V]"]
    by simp
  have "fix_loop ?E ?T sample_plan 2 st sample_verification 1 1 ?w2 =
        fix_loop ?E ?T sample_plan 2 st2 sample_verification (1 + 1) (Suc 1) ?w3"
    by (rule fix_loop_step[OF sv(1) _ _ fx ve2]) (simp_all add: sv)
  also have "\<dots> = (None, st2, sample_verification, 1 + 1, Suc 1, ?w3)"
    by (rule fix_loop_budget_spent) simp
  finally have fl: "fix_loop ?E ?T sample_plan 2 st sample_verification 1 1 ?w2 =
        (None, st2, sample_verification, 1 + 1, Suc 1, ?w3)" .
  have two: "fst (snd (run_task ?E ?T 2 (0, []))) = 2"
    using ag pl ex ve fl by (simp add: run_task_def)
  from round_loop_terminates_within_budget[of 2 ?E ?T "(0, [])"]
  have bound: "int (fst (snd (run_task ?E ?T 2 (0, [])))) \<le> 2" by simp
  from round_loop_terminates_within_budget[of 1 ?E ?T "(0, [])" ?llm sample_plan ?w1 st ?w1
      sample_verification ?w2] ag pl ex ve
  have one: "run_task ?E ?T 1 (0, []) =
        (Inr \<lparr>RunResponse.task = ?T, plan = sample_plan,
              results = ExecutionState.results st,
              verification = sample_verification,
              final_output = VerificationResult.final_output sample_verification,
              logs = ExecutionState.logs st\<rparr>,
         1, ?w2)"
    by blast
  from one two bound sv show ?thesis
    by simp
qed

section \<open>Properties of the tool results\<close>

lemma failure_success_invariant [simp]:
  "error_iff_failed (tool_failure name msg m)"
  "error_iff_failed (tool_success name d m)"
  "error_iff_failed (failed_result name msg)"
  "error_iff_failed (r\<lparr>meta := m\<rparr>) = error_iff_failed r"
  by (simp_all add: error_iff_failed_def tool_failure_def tool_success_def failed_result_def)

lemma GitHubTool_invariant:
  "GitHubTool net args w = (Inr r, w') \<Longrightarrow> error_iff_failed r"
  by (auto simp: GitHubTool_def Let_def split: sum.splits prod.splits if_splits)

lemma openweather_current_invariant:
  "openweather_current net city w = (Inr r, w') \<Longrightarrow> error_iff_failed r"
  by (auto simp: openweather_current_def split: sum.splits prod.splits if_splits option.splits)

lemma open_meteo_current_invariant:
  "open_meteo_current net city w = (Inr r, w') \<Longrightarrow> error_iff_failed r"
  by (auto simp: open_meteo_current_def split: sum.splits prod.splits if_splits option.splits)

lemma weather_fallback_invariant:
  "weather_fallback net city e w = (Inr r, w') \<Longrightarrow> error_iff_failed r"
  by (auto simp: weather_fallback_def dest: open_meteo_current_invariant
        split: sum.splits prod.splits if_splits)

lemma WeatherTool_invariant:
  "WeatherTool net args w = (Inr r, w') \<Longrightarrow> error_iff_failed r"
  by (auto simp: WeatherTool_def Let_def
        dest: openweather_current_invariant weather_fallback_invariant
        split: sum.splits prod.splits if_splits)

lemma newsapi_search_invariant:
  "newsapi_search net q n w = (Inr r, w') \<Longrightarrow> error_iff_failed r"
  by (auto simp: newsapi_search_def Let_def split: sum.splits prod.splits if_splits json.splits)

lemma gdelt_search_invariant:
  "gdelt_search net q n w = (Inr r, w') \<Longrightarrow> error_iff_failed r"
  by (auto simp: gdelt_search_def split: sum.splits prod.splits if_splits)

lemma googlenews_rss_search_invariant:
  "googlenews_rss_search net q n w = (r, w') \<Longrightarrow> error_iff_failed r"
  by (auto simp: googlenews_rss_search_def split: sum.splits prod.splits if_splits)

lemma news_fallback_invariant:
  "news_fallback net q n na w = (Inr r, w') \<Longrightarrow> error_iff_failed r"
  by (auto simp: news_fallback_def
        dest: gdelt_search_invariant googlenews_rss_search_invariant
        split: sum.splits prod.splits if_splits)

lemma NewsTool_invariant:
  "NewsTool net args w = (Inr r, w') \<Longrightarrow> error_iff_failed r"
  by (auto simp: NewsTool_def Let_def
        dest: newsapi_search_invariant news_fallback_invariant
        split: sum.splits prod.splits if_splits)

lemma registered_tool_invariant:
  assumes "TOOL_REGISTRY (with_tools net env) name = Some tool"
    and "tool args w = (Inr r, w')"
  shows "error_iff_failed r"
proof -
  from assms(1) have "tool = GitHubTool net \<or> tool = WeatherTool net \<or> tool = NewsTool net"
    by (auto simp: TOOL_REGISTRY_def with_tools_def split: if_splits)
  with assms(2) show ?thesis
    by (auto dest: GitHubTool_invariant WeatherTool_invariant NewsTool_invariant)
qed

lemma call_tool_invariant:
  assumes "TOOL_REGISTRY (with_tools net env) name = Some tool"
    and "call_tool tool name args w = (Inr r, w')"
  shows "error_iff_failed r"
  using assms(2) registered_tool_invariant[OF assms(1)]
  by (auto simp: call_tool_def ToolResult_validate_def split: sum.splits prod.splits if_splits)

lemma run_step_well_formed:
  assumes "run_step (with_tools net env) llm step state w = (x, state', w')"
    and "results_well_formed state"
  shows "results_well_formed state'"
proof (cases "deps_ok step state")
  case False
  with assms show ?thesis
    by (auto simp: run_step_def results_well_formed_def)
next
  case gate: True
  show ?thesis
  proof (cases "PlanStep.tool_name step")
    case None
    with assms gate show ?thesis
      by (auto simp: run_step_def results_well_formed_def
            split: sum.splits prod.splits if_splits)
  next
    case (Some name)
    show ?thesis
    proof (cases "TOOL_REGISTRY (with_tools net env) name")
      case None
      with assms gate Some show ?thesis
        by (auto simp: run_step_def get_tool_def)
    next
      case reg: (Some tool)
      obtain y w1 where c: "call_tool tool name (PlanStep.tool_args step) w = (y, w1)"
        by (cases "call_tool tool name (PlanStep.tool_args step) w")
      show ?thesis
      proof (cases y)
        case (Inl e)
        with assms gate Some reg c show ?thesis
          by (auto simp: run_step_def get_tool_def Let_def results_well_formed_def)
      next
        case (Inr res)
        with c call_tool_invariant[OF reg] have "error_iff_failed res" by blast
        with assms gate Some reg c Inr show ?thesis
          by (auto simp: run_step_def get_tool_def Let_def results_well_formed_def
                split: if_splits)
      qed
    qed
  qed
qed

lemma run_steps_well_formed:
  assumes "run_steps (with_tools net env) llm ss state w = (x, state', w')"
    and "results_well_formed state"
  shows "results_well_formed state'"
  using assms
proof (induction ss arbitrary: state w)
  case Nil
  then show ?case by simp
next
  case (Cons s ss)
  obtain x1 s1 w1 where r: "run_step (with_tools net env) llm s state w = (x1, s1, w1)"
    by (cases "run_step (with_tools net env) llm s state w")
  from run_step_well_formed[OF r Cons.prems(2)] have wf: "results_well_formed s1" .
  show ?case
  proof (cases x1)
    case None
    with Cons.prems(1) r have "run_steps (with_tools net env) llm ss s1 w1 = (x, state', w')"
      by simp
    from Cons.IH[OF this wf] show ?thesis .
  next
    case (Some e)
    with Cons.prems(1) r wf show ?thesis by simp
  qed
qed

text \<open>
  C8. In the environment whose registry holds the three tools of the repository, a
  \<open>ToolResult\<close> has its \<open>error\<close> set exactly when \<open>ok\<close> is false: when it is returned by the
  \<open>call\<close> of a registered tool, when it is the outcome of the Executor's guarded call (the
  tool's result, or the result built from a caught exception), and hence for every tool
  result a batch stores into a state whose stored results already had the property.
\<close>

theorem tool_result_error_iff_not_ok:
  "(TOOL_REGISTRY (with_tools net env) name = Some tool \<and> tool args w = (Inr r, w') \<longrightarrow>
      (error r \<noteq> None) = (\<not> ok r)) \<and>
   (TOOL_REGISTRY (with_tools net env) name = Some tool \<and>
    call_tool tool name args w = (Inr r', w'') \<longrightarrow>
      (error r' \<noteq> None) = (\<not> ok r')) \<and>
   (error (failed_result name msg) \<noteq> None) = (\<not> ok (failed_result name msg)) \<and>
   (run_steps (with_tools net env) llm ss state w = (x, state', w3) \<and>
    results_well_formed state \<longrightarrow> results_well_formed state')"
  using registered_tool_invariant[of net env name tool args w r w']
    call_tool_invariant[of net env name tool args w r' w'']
    run_steps_well_formed[of net env llm ss state w x state' w3]
    failure_success_invariant(3)[of name msg]
  unfolding error_iff_failed_def by blast

lemma sample_github_calls:
  "GitHubTool sample_net [(''query'', JStr ''isabelle'')] 0 =
     (Inr (tool_success ''github_repo_search''
             [(''query'', JStr ''isabelle''), (''items'', JList [])] []), 1)"
  "GitHubTool sample_net [] 0 =
     (Inr (tool_failure ''github_repo_search'' (''Missing 'query'' @ apostrophe) []), 0)"
  by (simp_all add: GitHubTool_def GitHubTool_get_def github_attempt_def sample_net_def
        sample_response_def py_str_def py_int_def dict_get_def strip_def isspace_def
        clamp_top_n_def transient_def resp_ok_def numeral_3_eq_3 Let_def)

theorem tool_result_error_iff_not_ok_witness:
  "TOOL_REGISTRY (with_tools sample_net sample_env) ''github_repo_search'' =
     Some (GitHubTool sample_net) \<and>
   GitHubTool sample_net [(''query'', JStr ''isabelle'')] 0 =
     (Inr (tool_success ''github_repo_search''
             [(''query'', JStr ''isabelle''), (''items'', JList [])] []), 1) \<and>
   ok (tool_success ''github_repo_search''
         [(''query'', JStr ''isabelle''), (''items'', JList [])] []) \<and>
   error (tool_success ''github_repo_search''
         [(''query'', JStr ''isabelle''), (''items'', JList [])] []) = None \<and>
   GitHubTool sample_net [] 0 =
     (Inr (tool_failure ''github_repo_search'' (''Missing 'query'' @ apostrophe) []), 0) \<and>
   \<not> ok (tool_failure ''github_repo_search'' (''Missing 'query'' @ apostrophe) []) \<and>
   error (tool_failure ''github_repo_search'' (''Missing 'query'' @ apostrophe) []) \<noteq> None \<and>
   results_well_formed empty_state \<and>
   results_well_formed
     (fst (snd (run_steps (with_tools sample_net sample_env) None [weather_step, final_step]
                  empty_state 0)))"
proof -
  have reg: "TOOL_REGISTRY (with_tools sample_net sample_env) ''github_repo_search'' =
     Some (GitHubTool sample_net)"
    by (simp add: TOOL_REGISTRY_def with_tools_def)
  have wf: "results_well_formed empty_state"
    by (simp add: results_well_formed_def empty_state_def)
  let ?run = "run_steps (with_tools sample_net sample_env) None [weather_step, final_step]
                  empty_state 0"
  have run: "?run = (fst ?run, fst (snd ?run), snd (snd ?run))" by simp
  from tool_result_error_iff_not_ok[where net = sample_net and env = sample_env
      and name = "''github_repo_search''" and tool = "GitHubTool sample_net"
      and args = "[(''query'', JStr ''isabelle'')]" and w = 0
      and r = "tool_success ''github_repo_search''
             [(''query'', JStr ''isabelle''), (''items'', JList [])] []" and w' = 1]
    tool_result_error_iff_not_ok[where net = sample_net and env = sample_env
      and name = "''github_repo_search''" and tool = "GitHubTool sample_net"
      and args = "[]" and w = 0
      and r = "tool_failure ''github_repo_search'' (''Missing 'query'' @ apostrophe) []"
      and w' = 0]
    tool_result_error_iff_not_ok[where net = sample_net and env = sample_env
      and llm = None and ss = "[weather_step, final_step]" and state = empty_state and w = 0
      and x = "fst ?run" and state' = "fst (snd ?run)" and ?w3.0 = "snd (snd ?run)"]
    reg wf sample_github_calls run
  show ?thesis
    by (simp add: tool_success_def tool_failure_def)
qed

section \<open>The plan schema as the gate before execution\<close>

text \<open>
  C4. A plan that validation accepts has at least one step, and its last step has no tool
  name and the output key \<open>final\<close>. Input whose step list is empty, or whose last step names a
  tool or has another output key, is rejected with a \<open>ValidationError\<close>: no \<open>AgentPlan\<close>
  exists for the Executor to run. In the pipeline, every plan \<open>PlannerAgent.plan\<close> returns
  went through this validation, and when the Planner returns none \<open>run_task\<close> ends with the
  exception and no batch was handed to the Executor.
\<close>

theorem plan_ends_with_compose_final:
  "(AgentPlan_validate r = Inr p \<longrightarrow>
      steps p \<noteq> [] \<and> PlanStep.tool_name (last (steps p)) = None \<and>
      PlanStep.output_key (last (steps p)) = ''final'') \<and>
   (raw_steps r = [] \<or> raw_tool_name (last (raw_steps r)) \<noteq> None \<or>
    raw_output_key (last (raw_steps r)) \<noteq> ''final'' \<longrightarrow>
      (\<exists>errs. errs \<noteq> [] \<and> AgentPlan_validate r = Inl (ValidationError errs))) \<and>
   (PlannerAgent_plan env t w = (Inr q, w1) \<longrightarrow>
      steps q \<noteq> [] \<and> PlanStep.tool_name (last (steps q)) = None \<and>
      PlanStep.output_key (last (steps q)) = ''final'') \<and>
   (PlannerAgent_plan env t w = (Inl e, w1) \<longrightarrow>
      fst (snd (run_task env t N w)) = 0 \<and> (\<exists>e2. fst (run_task env t N w) = Inl e2))"
proof -
  have planned: "steps q \<noteq> [] \<and> PlanStep.tool_name (last (steps q)) = None \<and>
      PlanStep.output_key (last (steps q)) = ''final''"
    if "PlannerAgent_plan env t w = (Inr q, w1)"
  proof -
    from that obtain r2 where "AgentPlan_validate r2 = Inr q"
      unfolding PlannerAgent_plan_def by (blast dest: plan_attempts_validated)
    from AgentPlan_validate_Inr[OF this] show ?thesis by simp
  qed
  from planned AgentPlan_validate_Inr[of r p] plan_rejected_unless_terminal[of r]
    planner_failure_runs_nothing[of env t w e w1 N]
  show ?thesis by blast
qed

lemma script_parse_failure:
  "parse_plan (script_env r) ''Sure, here is the plan'' =
     Inl (ValueError ''Could not parse JSON from model output.'')"
  by (simp add: parse_plan_def parse_defs script_env_def)

lemma script_planner_fails:
  "fst (PlannerAgent_plan (script_env never_valid) t (k, sent)) =
     Inl (RuntimeError (''PlannerAgent failed to produce valid plan. Last error: '' @
                        ''Could not parse JSON from model output.''))"
  using script_parse_failure[of never_valid]
  by (simp add: PlannerAgent_plan_def numeral_3_eq_3 never_valid_def str_opt_def)
    (simp add: script_env_def scripted_chat_def never_valid_def str_opt_def)

theorem plan_ends_with_compose_final_witness:
  "AgentPlan_validate sample_raw_plan = Inr sample_plan \<and>
   steps sample_plan \<noteq> [] \<and> PlanStep.tool_name (last (steps sample_plan)) = None \<and>
   PlanStep.output_key (last (steps sample_plan)) = ''final'' \<and>
   raw_steps (sample_raw_plan\<lparr>raw_steps := []\<rparr>) = [] \<and>
   (\<exists>errs. errs \<noteq> [] \<and>
      AgentPlan_validate (sample_raw_plan\<lparr>raw_steps := []\<rparr>) = Inl (ValidationError errs)) \<and>
   fst (PlannerAgent_plan (script_env always_valid) ''weather in Paris'' (0, [])) =
     Inr sample_plan \<and>
   fst (PlannerAgent_plan (script_env never_valid) ''weather in Paris'' (0, [])) =
     Inl (RuntimeError (''PlannerAgent failed to produce valid plan. Last error: '' @
                        ''Could not parse JSON from model output.'')) \<and>
   fst (snd (run_task (script_env never_valid) ''weather in Paris'' 3 (0, []))) = 0"
proof -
  let ?ok = "PlannerAgent_plan (script_env always_valid) ''weather in Paris'' (0, [])"
  let ?no = "PlannerAgent_plan (script_env never_valid) ''weather in Paris'' (0, [])"
  let ?e = "RuntimeError (''PlannerAgent failed to produce valid plan. Last error: '' @
                          ''Could not parse JSON from model output.'')"
  obtain wa where ok: "?ok = (Inr sample_plan, wa)"
    using script_planner[of "''weather in Paris''" 0 "[]"] by simp
  obtain wb where no: "?no = (Inl ?e, wb)"
    using script_planner_fails[of "''weather in Paris''" 0 "[]"] by (metis prod.collapse)
  from plan_ends_with_compose_final[of sample_raw_plan sample_plan
      "script_env always_valid" "''weather in Paris''" "(0, [])" sample_plan wa ?e 3]
    plan_ends_with_compose_final[of "sample_raw_plan\<lparr>raw_steps := []\<rparr>" sample_plan
      "script_env never_valid" "''weather in Paris''" "(0, [])" sample_plan wb ?e 3]
    sample_plan_valid ok no
  show ?thesis by simp
qed

end
